theory Spec2Isabelle
  imports Complex_Main
begin

section \<open>Python values used by the monitor\<close>

text \<open>
  Exceptions are values.  Only the exceptions that the modelled code paths can raise are
  listed: \<open>ValueError\<close> (the \<open>date\<close> constructor, \<open>int()\<close> on a non-numeric string),
  \<open>OverflowError\<close> (a date beyond \<open>date.max\<close>), \<open>ZeroDivisionError\<close> (float
  division by zero) and \<open>FetchError\<close> for any exception escaping the breadth fetcher.
\<close>

datatype error = ValueError | OverflowError | ZeroDivisionError | FetchError

text \<open>
  A Python float is a real number or NaN.  Rounding and the infinities are abstracted
  away; NaN is kept because pandas marks a missing daily return with it and because
  Python's \<open>min\<close>/\<open>max\<close> and comparisons treat it specially.
\<close>

datatype pyfloat = Num real | NaN

fun isna :: "pyfloat \<Rightarrow> bool" where
  "isna NaN = True"
| "isna (Num r) = False"

fun py_sub :: "pyfloat \<Rightarrow> pyfloat \<Rightarrow> pyfloat" where
  "py_sub (Num a) (Num b) = Num (a - b)"
| "py_sub a b = NaN"

fun py_add :: "pyfloat \<Rightarrow> pyfloat \<Rightarrow> pyfloat" where
  "py_add (Num a) (Num b) = Num (a + b)"
| "py_add a b = NaN"

fun py_mul :: "pyfloat \<Rightarrow> pyfloat \<Rightarrow> pyfloat" where
  "py_mul (Num a) (Num b) = Num (a * b)"
| "py_mul a b = NaN"

text \<open>Every ordered comparison with NaN is false.\<close>

fun py_lt :: "pyfloat \<Rightarrow> pyfloat \<Rightarrow> bool" where
  "py_lt (Num a) (Num b) = (a < b)"
| "py_lt a b = False"

text \<open>
  Python's two-argument \<open>min(a, b)\<close> returns \<open>b\<close> when \<open>b < a\<close> and \<open>a\<close> otherwise;
  \<open>max(a, b)\<close> returns \<open>b\<close> when \<open>b > a\<close> and \<open>a\<close> otherwise.
\<close>

definition py_min :: "pyfloat \<Rightarrow> pyfloat \<Rightarrow> pyfloat" where
  "py_min a b = (if py_lt b a then b else a)"

definition py_max :: "pyfloat \<Rightarrow> pyfloat \<Rightarrow> pyfloat" where
  "py_max a b = (if py_lt a b then b else a)"

section \<open>Calendar dates (\<open>datetime.date\<close>)\<close>

record date =
  year :: nat
  month :: nat
  day :: nat

definition is_leap :: "nat \<Rightarrow> bool" where
  "is_leap y = (y mod 4 = 0 \<and> (y mod 100 \<noteq> 0 \<or> y mod 400 = 0))"

definition days_in_month :: "nat \<Rightarrow> nat \<Rightarrow> nat" where
  "days_in_month y m =
     (if m = 2 then (if is_leap y then 29 else 28)
      else if m = 4 \<or> m = 6 \<or> m = 9 \<or> m = 11 then 30
      else 31)"

text \<open>The values of type \<open>date\<close> that Python can construct (years 1 to 9999).\<close>

definition valid_date :: "date \<Rightarrow> bool" where
  "valid_date d =
     (1 \<le> year d \<and> year d \<le> 9999 \<and> 1 \<le> month d \<and> month d \<le> 12 \<and>
      1 \<le> day d \<and> day d \<le> days_in_month (year d) (month d))"

text \<open>The constructor \<open>date(y, m, d)\<close> raises \<open>ValueError\<close> outside that range.\<close>

definition mk_date :: "nat \<Rightarrow> nat \<Rightarrow> nat \<Rightarrow> error + date" where
  "mk_date y m d =
     (if valid_date \<lparr>year = y, month = m, day = d\<rparr>
      then Inr \<lparr>year = y, month = m, day = d\<rparr> else Inl ValueError)"

text \<open>
  \<open>date.toordinal()\<close>: day 1 is 0001-01-01.  \<open>date.weekday()\<close> is
  \<open>(toordinal() + 6) % 7\<close>, Monday being 0 and Friday 4.
\<close>

definition days_before_year :: "nat \<Rightarrow> nat" where
  "days_before_year y =
     (let y1 = y - 1 in y1 * 365 + y1 div 4 + y1 div 400 - y1 div 100)"

definition days_before_month :: "nat \<Rightarrow> nat \<Rightarrow> nat" where
  "days_before_month y m = sum_list (map (days_in_month y) [1..<m])"

definition toordinal :: "date \<Rightarrow> nat" where
  "toordinal d = days_before_year (year d) + days_before_month (year d) (month d) + day d"

definition weekday :: "date \<Rightarrow> nat" where
  "weekday d = (toordinal d + 6) mod 7"

text \<open>
  \<open>d + timedelta(days=1)\<close>: the next calendar day; \<open>OverflowError\<close> ("date value out
  of range") when \<open>d\<close> is \<open>date.max\<close>, 9999-12-31.
\<close>

definition add_one_day :: "date \<Rightarrow> error + date" where
  "add_one_day d =
     (if year d = 9999 \<and> month d = 12 \<and> day d = 31 then Inl OverflowError
      else if day d < days_in_month (year d) (month d) then Inr (d\<lparr>day := day d + 1\<rparr>)
      else if month d < 12 then Inr \<lparr>year = year d, month = month d + 1, day = 1\<rparr>
      else Inr \<lparr>year = year d + 1, month = 1, day = 1\<rparr>)"

subsection \<open>Formatting dates and reading integers\<close>

definition digit_char :: "nat \<Rightarrow> char" where
  "digit_char n = ''0123456789'' ! (n mod 10)"

function show_nat :: "nat \<Rightarrow> string" where
  "show_nat n = (if n < 10 then [digit_char n] else show_nat (n div 10) @ [digit_char n])"
  by pat_completeness auto
termination
  by (relation "measure id") auto

declare show_nat.simps [simp del]

definition zfill :: "nat \<Rightarrow> string \<Rightarrow> string" where
  "zfill w s = replicate (w - length s) (CHR ''0'') @ s"

text \<open>\<open>strftime('%Y-%m')\<close>, \<open>strftime('%Y%m%d')\<close> and \<open>strftime('%Y-%m-%d')\<close>.\<close>

definition strftime_Ym :: "date \<Rightarrow> string" where
  "strftime_Ym d = zfill 4 (show_nat (year d)) @ ''-'' @ zfill 2 (show_nat (month d))"

definition strftime_Ymd_compact :: "date \<Rightarrow> string" where
  "strftime_Ymd_compact d =
     zfill 4 (show_nat (year d)) @ zfill 2 (show_nat (month d)) @ zfill 2 (show_nat (day d))"

definition strftime_Ymd :: "date \<Rightarrow> string" where
  "strftime_Ymd d =
     zfill 4 (show_nat (year d)) @ ''-'' @ zfill 2 (show_nat (month d)) @ ''-'' @
     zfill 2 (show_nat (day d))"

text \<open>
  \<open>int(s)\<close> on a string of decimal digits; \<open>ValueError\<close> on the empty string or on any
  other character (the strings formatted above contain digits only).
\<close>

definition digit_value :: "char \<Rightarrow> nat option" where
  "digit_value c = map_of (zip ''0123456789'' [0..<10]) c"

fun read_digits :: "nat \<Rightarrow> string \<Rightarrow> error + nat" where
  "read_digits acc [] = Inr acc"
| "read_digits acc (c # cs) =
     (case digit_value c of
        None \<Rightarrow> Inl ValueError
      | Some v \<Rightarrow> read_digits (acc * 10 + v) cs)"

definition py_int :: "string \<Rightarrow> error + nat" where
  "py_int s = (if s = [] then Inl ValueError else read_digits 0 s)"

section \<open>The calendar utility: \<open>is_third_friday\<close>\<close>

text \<open>
  The loop \<open>while current_date.month == month\<close> of \<open>is_third_friday\<close>: it appends
  \<open>current_date\<close> to \<open>fridays\<close> when its weekday is 4 and advances by one day.  The
  addition can raise, which ends the loop with the error.
\<close>

function fridays_from :: "nat \<Rightarrow> date \<Rightarrow> date list \<Rightarrow> error + date list" where
  "fridays_from m current_date fridays =
     (if month current_date = m then
        (let fridays' = (if weekday current_date = 4 then fridays @ [current_date]
                         else fridays)
         in case add_one_day current_date of
              Inl e \<Rightarrow> Inl e
            | Inr nxt \<Rightarrow> fridays_from m nxt fridays')
      else Inr fridays)"
  by pat_completeness auto
termination
  by (relation "measure (\<lambda>(m, d, fs).
        if month d = m then 1 + (days_in_month (year d) (month d) - day d) else 0)")
     (auto simp: add_one_day_def split: if_splits)

declare fridays_from.simps [simp del]

text \<open>
  \<open>RSPMonitor.is_third_friday\<close> (rsp_dca_monitor.py, lines 151-174).  The whole body is
  inside \<open>try\<close>; any exception is logged and the result is \<open>False\<close>.
\<close>

definition is_third_friday :: "date \<Rightarrow> bool" where
  "is_third_friday d =
     (case mk_date (year d) (month d) 1 of
        Inl e \<Rightarrow> False
      | Inr current_date \<Rightarrow>
          (case fridays_from (month d) current_date [] of
             Inl e \<Rightarrow> False
           | Inr fridays \<Rightarrow>
               if length fridays \<ge> 3 then d = fridays ! 2
               else if fridays \<noteq> [] then d = last fridays else False))"

text \<open>
  \<open>RSPBacktestMonitor.is_third_friday\<close> (rsp_backtest_monitor.py, lines 119-138) has
  the same body, starting from \<open>date(year, month, 1)\<close>.
\<close>

definition backtest_is_third_friday :: "date \<Rightarrow> bool" where
  "backtest_is_third_friday check_date =
     (case mk_date (year check_date) (month check_date) 1 of
        Inl e \<Rightarrow> False
      | Inr current_date \<Rightarrow>
          (case fridays_from (month check_date) current_date [] of
             Inl e \<Rightarrow> False
           | Inr fridays \<Rightarrow>
               if length fridays \<ge> 3 then check_date = fridays ! 2
               else if fridays \<noteq> [] then check_date = last fridays else False))"

section \<open>The random module\<close>

text \<open>
  Python's global generator is a piece of state: \<open>random.seed(n)\<close> replaces it by
  a state that depends on \<open>n\<close> only, \<open>random.random()\<close> draws a float in \<open>[0, 1)\<close> and
  advances it.  The generator itself (the Mersenne Twister) is a parameter.
\<close>

record 'g rng =
  rng_seed :: "nat \<Rightarrow> 'g"
  rng_random :: "'g \<Rightarrow> real \<times> 'g"

definition rng_ok :: "'g rng \<Rightarrow> bool" where
  "rng_ok R = (\<forall>g. 0 \<le> fst (rng_random R g) \<and> fst (rng_random R g) < 1)"

text \<open>\<open>random.uniform(a, b)\<close> is \<open>a + (b - a) * random()\<close>.\<close>

definition uniform :: "'g rng \<Rightarrow> real \<Rightarrow> real \<Rightarrow> 'g \<Rightarrow> real \<times> 'g" where
  "uniform R a b g = (case rng_random R g of (r, g') \<Rightarrow> (a + (b - a) * r, g'))"

section \<open>The breadth provider\<close>

text \<open>
  \<open>MarketBreadthFetcher._get_simulated_breadth\<close> (market_breadth_fetcher.py, lines
  135-150).  \<open>now\<close> is the date of \<open>datetime.now()\<close>.
\<close>

definition get_simulated_breadth :: "'g rng \<Rightarrow> date \<Rightarrow> error + real \<times> 'g" where
  "get_simulated_breadth R now =
     (case py_int (strftime_Ymd_compact now) of
        Inl e \<Rightarrow> Inl e
      | Inr n \<Rightarrow>
          (let seed = n mod 1000;
               g = rng_seed R seed;
               base_breadth = 25;
               (variation, g') = uniform R (- 10) 10 g;
               breadth = max 5 (min 45 (base_breadth + variation))
           in Inr (breadth, g')))"

text \<open>
  \<open>MarketBreadthFetcher.get_market_breadth\<close> (lines 115-133).  The argument
  \<open>sources\<close> lists, in the order of \<open>self.data_sources\<close>, what
  \<open>get_market_breadth_from_source\<close> returns for each source (\<open>None\<close> for a failed
  request or parse).  The loop returns the first value that is not \<open>None\<close>; when every
  source fails the simulated value is returned.
\<close>

fun first_breadth :: "real option list \<Rightarrow> real option" where
  "first_breadth [] = None"
| "first_breadth (Some breadth # rest) = Some breadth"
| "first_breadth (None # rest) = first_breadth rest"

definition fetcher_get_market_breadth ::
  "'g rng \<Rightarrow> 'g \<Rightarrow> date \<Rightarrow> real option list \<Rightarrow> error + real \<times> 'g" where
  "fetcher_get_market_breadth R g now sources =
     (case first_breadth sources of
        Some breadth \<Rightarrow> Inr (breadth, g)
      | None \<Rightarrow> get_simulated_breadth R now)"

text \<open>
  The substitute class installed by rsp_dca_monitor.py (lines 18-25) when the import of
  \<open>market_breadth_fetcher\<close> fails: \<open>random.uniform(10, 30)\<close> on the global generator,
  which is not seeded.
\<close>

definition substitute_get_market_breadth :: "'g rng \<Rightarrow> 'g \<Rightarrow> error + real \<times> 'g" where
  "substitute_get_market_breadth R g = Inr (uniform R 10 30 g)"

text \<open>
  \<open>RSPMonitor.get_market_breadth\<close> (rsp_dca_monitor.py, lines 142-149): the result of
  the fetcher, or \<open>20.0\<close> when the fetcher raises.
\<close>

definition get_market_breadth :: "error + real \<times> 'g \<Rightarrow> real" where
  "get_market_breadth fetched = (case fetched of Inl e \<Rightarrow> 20 | Inr (breadth, g) \<Rightarrow> breadth)"

section \<open>The live monitor\<close>

text \<open>One row of the price frame built by \<open>get_rsp_data\<close>.\<close>

record bar =
  b_date :: date
  b_open :: real
  b_high :: real
  b_low :: real
  b_close :: real
  b_volume :: real
  b_daily_return :: pyfloat

text \<open>The persisted state dictionary (\<open>default_state\<close>, lines 50-60).\<close>

record monitor_state =
  current_month :: string
  first_dip_triggered :: bool
  monthly_deadline_triggered :: bool
  second_dip_triggered :: bool
  third_dip_triggered :: bool
  month_start_price :: "real option"
  month_low_price :: "real option"
  last_check_date :: string
  monthly_returns :: "real list"

definition default_state :: monitor_state where
  "default_state =
     \<lparr>current_month = [], first_dip_triggered = False,
      monthly_deadline_triggered = False, second_dip_triggered = False,
      third_dip_triggered = False, month_start_price = None, month_low_price = None,
      last_check_date = [], monthly_returns = []\<rparr>"

definition reset_monthly_state :: "monitor_state \<Rightarrow> string \<Rightarrow> monitor_state" where
  "reset_monthly_state st cm =
     st\<lparr>current_month := cm, first_dip_triggered := False,
        monthly_deadline_triggered := False, second_dip_triggered := False,
        third_dip_triggered := False, month_start_price := None,
        month_low_price := None\<rparr>"

text \<open>
  The four reminder texts, with the values they are formatted from: closing price, daily
  return and date; the second also carries the month's start price and the cumulative
  decline, the third the breadth and the cumulative decline.
\<close>

datatype message =
    FirstDipMsg real real date
  | DeadlineMsg real real date
  | SecondDipMsg real "real option" real date
  | ThirdDipMsg real real real date

datatype trigger_type = FirstDip | MonthlyDeadline | SecondDip | ThirdDip

fun message_type :: "message \<Rightarrow> trigger_type" where
  "message_type (FirstDipMsg c r d) = FirstDip"
| "message_type (DeadlineMsg c r d) = MonthlyDeadline"
| "message_type (SecondDipMsg c p cd d) = SecondDip"
| "message_type (ThirdDipMsg c b cd d) = ThirdDip"

text \<open>
  What one call of \<open>check_triggers\<close> leaves behind: the state in memory, the messages
  handed to \<open>send_wechat\<close> in order, and the state written by \<open>save_state\<close> (\<open>None\<close>
  when \<open>save_state\<close> was not reached).
\<close>

record check_result =
  cr_state :: monitor_state
  cr_sent :: "message list"
  cr_saved :: "monitor_state option"

text \<open>
  Lines 232-238: the month rollover.  \<open>month_start_data\<close> holds the rows of the frame
  whose month is the current one; the start price is the open of its first row.
\<close>

definition rollover :: "monitor_state \<Rightarrow> bar list \<Rightarrow> string \<Rightarrow> monitor_state" where
  "rollover st df cm =
     (if current_month st \<noteq> cm then
        (let st' = reset_monthly_state st cm;
             month_start_data = filter (\<lambda>b. strftime_Ym (b_date b) = cm) df
         in if month_start_data \<noteq> []
            then st'\<lparr>month_start_price := Some (b_open (hd month_start_data))\<rparr>
            else st')
      else st)"

text \<open>Lines 255-259: a start price that is \<open>None\<close> or \<open>0\<close> is falsy.\<close>

definition cumulative_decline_of :: "real option \<Rightarrow> real \<Rightarrow> real" where
  "cumulative_decline_of start_price today_close =
     (case start_price of
        None \<Rightarrow> 0
      | Some p \<Rightarrow> if p \<noteq> 0 then (p - today_close) / p else 0)"

text \<open>Lines 269-303: the first reminder, by a daily drop or by the third Friday.\<close>

definition stage1 ::
  "date \<Rightarrow> real \<Rightarrow> real \<Rightarrow> monitor_state \<times> message list \<Rightarrow> monitor_state \<times> message list" where
  "stage1 today today_close today_return sm =
     (case sm of (st, messages) \<Rightarrow>
        if \<not> first_dip_triggered st \<and> \<not> monthly_deadline_triggered st \<and>
           today_return \<le> - 0.01
        then (st\<lparr>first_dip_triggered := True\<rparr>,
              messages @ [FirstDipMsg today_close today_return today])
        else if \<not> first_dip_triggered st \<and> \<not> monthly_deadline_triggered st \<and>
                is_third_friday today
        then (st\<lparr>monthly_deadline_triggered := True\<rparr>,
              messages @ [DeadlineMsg today_close today_return today])
        else (st, messages))"

text \<open>Lines 305-321: the second reminder, by the cumulative decline.\<close>

definition stage2 ::
  "date \<Rightarrow> real \<Rightarrow> real \<Rightarrow> monitor_state \<times> message list \<Rightarrow> monitor_state \<times> message list" where
  "stage2 today today_close cumulative_decline sm =
     (case sm of (st, messages) \<Rightarrow>
        if \<not> second_dip_triggered st \<and> cumulative_decline \<ge> 0.05
        then (st\<lparr>second_dip_triggered := True\<rparr>,
              messages @ [SecondDipMsg today_close (month_start_price st)
                            cumulative_decline today])
        else (st, messages))"

text \<open>
  Lines 323-342: the third reminder.  \<open>fetched\<close> is what the call
  \<open>self.breadth_fetcher.get_market_breadth()\<close> yields on this run; it is consulted
  only inside the guard.
\<close>

definition stage3 ::
  "date \<Rightarrow> real \<Rightarrow> real \<Rightarrow> error + real \<times> 'g \<Rightarrow>
   monitor_state \<times> message list \<Rightarrow> monitor_state \<times> message list" where
  "stage3 today today_close cumulative_decline fetched sm =
     (case sm of (st, messages) \<Rightarrow>
        if second_dip_triggered st \<and> \<not> third_dip_triggered st then
          (let market_breadth = get_market_breadth fetched
           in if market_breadth < 15
              then (st\<lparr>third_dip_triggered := True\<rparr>,
                    messages @ [ThirdDipMsg today_close market_breadth
                                  cumulative_decline today])
              else (st, messages))
        else (st, messages))"

text \<open>
  \<open>RSPMonitor.check_triggers\<close> (lines 220-371).  \<open>df\<close> is the frame returned by
  \<open>get_rsp_data\<close> (empty when the fetch failed), \<open>today\<close> the date of
  \<open>datetime.now()\<close>.
\<close>

definition check_triggers ::
  "monitor_state \<Rightarrow> bar list \<Rightarrow> date \<Rightarrow> error + real \<times> 'g \<Rightarrow> check_result" where
  "check_triggers st df today fetched =
     (if df = [] then \<lparr>cr_state = st, cr_sent = [], cr_saved = None\<rparr>
      else
        (let cm = strftime_Ym today;
             st1 = rollover st df cm;
             today_data = filter (\<lambda>b. b_date b = today) df
         in if today_data = [] then \<lparr>cr_state = st1, cr_sent = [], cr_saved = None\<rparr>
            else
              (let today_close = b_close (last today_data);
                   today_return = (case b_daily_return (last today_data) of
                                     NaN \<Rightarrow> 0 | Num r \<Rightarrow> r);
                   st2 = st1\<lparr>month_low_price :=
                              (case month_low_price st1 of
                                 None \<Rightarrow> Some today_close
                               | Some low \<Rightarrow> Some (min low today_close))\<rparr>;
                   cumulative_decline =
                     cumulative_decline_of (month_start_price st2) today_close;
                   (st3, messages) =
                     stage3 today today_close cumulative_decline fetched
                       (stage2 today today_close cumulative_decline
                          (stage1 today today_close today_return (st2, [])));
                   st4 = st3\<lparr>last_check_date := strftime_Ymd today\<rparr>
               in \<lparr>cr_state = st4, cr_sent = messages, cr_saved = Some st4\<rparr>)))"

text \<open>
  A sequence of daily runs: each run loads the state the previous one saved, or the
  state that run had loaded when nothing was saved.
\<close>

definition persisted :: "monitor_state \<Rightarrow> check_result \<Rightarrow> monitor_state" where
  "persisted st r = (case cr_saved r of None \<Rightarrow> st | Some st' \<Rightarrow> st')"

fun daily_runs ::
  "monitor_state \<Rightarrow> (bar list \<times> date \<times> (error + real \<times> 'g)) list \<Rightarrow> monitor_state" where
  "daily_runs st [] = st"
| "daily_runs st ((df, today, fetched) # rest) =
     daily_runs (persisted st (check_triggers st df today fetched)) rest"

section \<open>The backtest\<close>

text \<open>
  \<open>RSPBacktestMonitor.simulate_market_breadth\<close> (rsp_backtest_monitor.py, lines
  140-157).  The body is inside \<open>try\<close>: an exception yields \<open>25.0\<close> and leaves the
  generator as it was.
\<close>

definition simulate_market_breadth ::
  "'g rng \<Rightarrow> 'g \<Rightarrow> date \<Rightarrow> pyfloat \<Rightarrow> pyfloat \<times> 'g" where
  "simulate_market_breadth R g date_val volatility =
     (case py_int (strftime_Ymd_compact date_val) of
        Inl e \<Rightarrow> (Num 25, g)
      | Inr n \<Rightarrow>
          (let seed = n mod 10000;
               g1 = rng_seed R seed;
               base_breadth = py_sub (Num 30) (py_mul volatility (Num 100));
               (variation, g2) = uniform R (- 15) 15 g1;
               breadth = py_max (Num 5) (py_min (Num 50) (py_add base_breadth (Num variation)))
           in (breadth, g2)))"

text \<open>One entry of \<open>month_state['triggers']\<close> (the condition text is fixed by the type).\<close>

record trigger =
  t_date :: date
  t_type :: trigger_type
  t_daily_return :: real
  t_price :: real
  t_cumulative_decline :: real
  t_market_breadth :: "pyfloat option"

text \<open>
  The dictionary \<open>month_state\<close> of \<open>analyze_month\<close>.  Its start price is \<open>None\<close> only
  between the creation of the dictionary and line 181, before any read.
\<close>

record month_state =
  bt_month :: string
  bt_first_dip_triggered :: bool
  bt_monthly_deadline_triggered :: bool
  bt_second_dip_triggered :: bool
  bt_third_dip_triggered :: bool
  bt_triggers :: "trigger list"
  bt_month_start_price :: real
  bt_month_end_price :: real
  bt_month_return :: real
  bt_max_decline :: real
  bt_trading_days :: nat

text \<open>\<open>Series.dropna()\<close> on the daily returns and \<open>Series.std()\<close> (sample deviation).\<close>

definition dropna :: "pyfloat list \<Rightarrow> real list" where
  "dropna xs = List.map_filter (\<lambda>x. case x of Num r \<Rightarrow> Some r | NaN \<Rightarrow> None) xs"

definition sample_std :: "real list \<Rightarrow> real" where
  "sample_std xs =
     (let n = length xs; mean = sum_list xs / real n
      in sqrt (sum_list (map (\<lambda>x. (x - mean)\<^sup>2) xs) / real (n - 1)))"

text \<open>Lines 248-253: the volatility of the rows \<open>max(0, i-4)\<close> to \<open>i\<close>.\<close>

definition recent_volatility :: "bar list \<Rightarrow> nat \<Rightarrow> pyfloat" where
  "recent_volatility monthly_data i =
     (if i \<ge> 5 then
        (let recent_returns =
               dropna (map b_daily_return (take (i + 1 - (i - 4)) (drop (i - 4) monthly_data)))
         in if length recent_returns > 1 then Num (sample_std recent_returns) else Num 0.01)
      else Num 0.01)"

text \<open>Lines 197-227, 229-242 and 244-268: the three stages of one day.\<close>

definition bt_stage1 :: "date \<Rightarrow> real \<Rightarrow> real \<Rightarrow> real \<Rightarrow> month_state \<Rightarrow> month_state" where
  "bt_stage1 current_date current_close daily_return cumulative_decline ms =
     (if \<not> bt_first_dip_triggered ms \<and> \<not> bt_monthly_deadline_triggered ms \<and>
         daily_return \<le> - 0.01
      then ms\<lparr>bt_triggers := bt_triggers ms @
                 [\<lparr>t_date = current_date, t_type = FirstDip, t_daily_return = daily_return,
                   t_price = current_close, t_cumulative_decline = cumulative_decline,
                   t_market_breadth = None\<rparr>],
              bt_first_dip_triggered := True\<rparr>
      else if \<not> bt_first_dip_triggered ms \<and> \<not> bt_monthly_deadline_triggered ms \<and>
              backtest_is_third_friday current_date
      then ms\<lparr>bt_triggers := bt_triggers ms @
                 [\<lparr>t_date = current_date, t_type = MonthlyDeadline,
                   t_daily_return = daily_return, t_price = current_close,
                   t_cumulative_decline = cumulative_decline, t_market_breadth = None\<rparr>],
              bt_monthly_deadline_triggered := True\<rparr>
      else ms)"

definition bt_stage2 :: "date \<Rightarrow> real \<Rightarrow> real \<Rightarrow> real \<Rightarrow> month_state \<Rightarrow> month_state" where
  "bt_stage2 current_date current_close daily_return cumulative_decline ms =
     (if \<not> bt_second_dip_triggered ms \<and> cumulative_decline \<ge> 0.05
      then ms\<lparr>bt_triggers := bt_triggers ms @
                 [\<lparr>t_date = current_date, t_type = SecondDip, t_daily_return = daily_return,
                   t_price = current_close, t_cumulative_decline = cumulative_decline,
                   t_market_breadth = None\<rparr>],
              bt_second_dip_triggered := True\<rparr>
      else ms)"

definition bt_stage3 ::
  "'g rng \<Rightarrow> bar list \<Rightarrow> nat \<Rightarrow> date \<Rightarrow> real \<Rightarrow> real \<Rightarrow> real \<Rightarrow>
   month_state \<times> 'g \<Rightarrow> month_state \<times> 'g" where
  "bt_stage3 R monthly_data i current_date current_close daily_return cumulative_decline mg =
     (case mg of (ms, g) \<Rightarrow>
        if bt_second_dip_triggered ms \<and> \<not> bt_third_dip_triggered ms then
          (let volatility = recent_volatility monthly_data i;
               (market_breadth, g') = simulate_market_breadth R g current_date volatility
           in if py_lt market_breadth (Num 15)
              then (ms\<lparr>bt_triggers := bt_triggers ms @
                          [\<lparr>t_date = current_date, t_type = ThirdDip,
                            t_daily_return = daily_return, t_price = current_close,
                            t_cumulative_decline = cumulative_decline,
                            t_market_breadth = Some market_breadth\<rparr>],
                       bt_third_dip_triggered := True\<rparr>, g')
              else (ms, g'))
        else (ms, g))"

text \<open>Lines 186-268: the body of the loop over \<open>enumerate(monthly_data.iterrows())\<close>.\<close>

definition analyze_row ::
  "'g rng \<Rightarrow> bar list \<Rightarrow> nat \<times> bar \<Rightarrow> month_state \<times> 'g \<Rightarrow> month_state \<times> 'g" where
  "analyze_row R monthly_data ir mg =
     (case ir of (i, row) \<Rightarrow> case mg of (ms, g) \<Rightarrow>
        (let current_date = b_date row;
             current_close = b_close row;
             daily_return = (case b_daily_return row of NaN \<Rightarrow> 0 | Num r \<Rightarrow> r);
             cumulative_decline =
               (bt_month_start_price ms - current_close) / bt_month_start_price ms;
             ms1 = ms\<lparr>bt_max_decline := max (bt_max_decline ms) cumulative_decline\<rparr>
         in bt_stage3 R monthly_data i current_date current_close daily_return
              cumulative_decline
              (bt_stage2 current_date current_close daily_return cumulative_decline
                 (bt_stage1 current_date current_close daily_return cumulative_decline ms1),
               g)))"

text \<open>
  \<open>RSPBacktestMonitor.analyze_month\<close> (lines 159-274).  The result is \<open>None\<close> for an
  empty month and when the month return divides by a start price of zero (the
  \<open>ZeroDivisionError\<close> is caught by the enclosing \<open>except\<close>).
\<close>

definition initial_month_state :: "bar list \<Rightarrow> string \<Rightarrow> month_state" where
  "initial_month_state monthly_data month_str =
     (let start_price = b_open (hd monthly_data);
          end_price = b_close (last monthly_data)
      in \<lparr>bt_month = month_str, bt_first_dip_triggered = False,
          bt_monthly_deadline_triggered = False, bt_second_dip_triggered = False,
          bt_third_dip_triggered = False, bt_triggers = [],
          bt_month_start_price = start_price, bt_month_end_price = end_price,
          bt_month_return = (end_price - start_price) / start_price,
          bt_max_decline = 0, bt_trading_days = length monthly_data\<rparr>)"

definition analyze_month ::
  "'g rng \<Rightarrow> 'g \<Rightarrow> bar list \<Rightarrow> string \<Rightarrow> month_state option \<times> 'g" where
  "analyze_month R g monthly_data month_str =
     (if monthly_data = [] then (None, g)
      else if b_open (hd monthly_data) = 0 then (None, g)
      else
        (case fold (analyze_row R monthly_data) (enumerate 0 monthly_data)
                (initial_month_state monthly_data month_str, g) of
           (ms, g') \<Rightarrow> (Some ms, g')))"

section \<open>The specification's calendar predicate\<close>

text \<open>
  Follows the spec's words (section 4.1, with Friday as the weekday): enumerate every
  date of the month of \<open>d\<close> that falls on a Friday, in ascending order; true iff \<open>d\<close> is
  the third such date, or the last such date when there are fewer than three.
\<close>

definition spec_is_third_friday :: "date \<Rightarrow> bool" where
  "spec_is_third_friday d =
     (let fridays = filter (\<lambda>x. weekday x = 4)
                      (map (\<lambda>j. \<lparr>year = year d, month = month d, day = j\<rparr>)
                         [1..<Suc (days_in_month (year d) (month d))])
      in if length fridays \<ge> 3 then d = fridays ! 2
         else fridays \<noteq> [] \<and> d = last fridays)"

section \<open>Example data\<close>

definition simple_bar :: "date \<Rightarrow> real \<Rightarrow> real \<Rightarrow> pyfloat \<Rightarrow> bar" where
  "simple_bar d opn cls ret =
     \<lparr>b_date = d, b_open = opn, b_high = max opn cls, b_low = min opn cls, b_close = cls,
      b_volume = 1000, b_daily_return = ret\<rparr>"

text \<open>A generator whose draws run through 0, 0.1, ..., 0.9.\<close>

definition example_rng :: "nat rng" where
  "example_rng = \<lparr>rng_seed = (\<lambda>n. n), rng_random = (\<lambda>g. (real (g mod 10) / 10, g + 1))\<rparr>"

text \<open>
  A frame of three August 2024 rows.  On the last one the close is 5.05 percent below the
  previous close and 6 percent below the month's first open.
\<close>

definition example_today :: date where
  "example_today = \<lparr>year = 2024, month = 8, day = 5\<rparr>"

definition example_frame :: "bar list" where
  "example_frame =
     [simple_bar \<lparr>year = 2024, month = 8, day = 1\<rparr> 100 99.5 NaN,
      simple_bar \<lparr>year = 2024, month = 8, day = 2\<rparr> 99.5 99 (Num (- 0.005)),
      simple_bar example_today 99 94 (Num (- 0.0505))]"

section \<open>Properties of the live monitor's stages\<close>

lemma check_triggers_cases:
  "check_triggers st df today fetched =
     (if df = [] then \<lparr>cr_state = st, cr_sent = [], cr_saved = None\<rparr>
      else if filter (\<lambda>b. b_date b = today) df = []
      then \<lparr>cr_state = rollover st df (strftime_Ym today), cr_sent = [], cr_saved = None\<rparr>
      else
        (let today_data = filter (\<lambda>b. b_date b = today) df;
             st1 = rollover st df (strftime_Ym today);
             today_close = b_close (last today_data);
             today_return = (case b_daily_return (last today_data) of NaN \<Rightarrow> 0 | Num r \<Rightarrow> r);
             st2 = st1\<lparr>month_low_price :=
                        (case month_low_price st1 of
                           None \<Rightarrow> Some today_close
                         | Some low \<Rightarrow> Some (min low today_close))\<rparr>;
             cd = cumulative_decline_of (month_start_price st1) today_close;
             out = stage3 today today_close cd fetched
                     (stage2 today today_close cd (stage1 today today_close today_return (st2, [])));
             st4 = (fst out)\<lparr>last_check_date := strftime_Ymd today\<rparr>
         in \<lparr>cr_state = st4, cr_sent = snd out, cr_saved = Some st4\<rparr>))"
  by (simp add: check_triggers_def Let_def case_prod_beta)

lemma stage1_keeps [simp]:
  "second_dip_triggered (fst (stage1 t c r sm)) = second_dip_triggered (fst sm)"
  "third_dip_triggered (fst (stage1 t c r sm)) = third_dip_triggered (fst sm)"
  "month_start_price (fst (stage1 t c r sm)) = month_start_price (fst sm)"
  "current_month (fst (stage1 t c r sm)) = current_month (fst sm)"
  by (auto simp: stage1_def split: prod.splits)

lemma stage2_keeps [simp]:
  "first_dip_triggered (fst (stage2 t c cd sm)) = first_dip_triggered (fst sm)"
  "monthly_deadline_triggered (fst (stage2 t c cd sm)) = monthly_deadline_triggered (fst sm)"
  "third_dip_triggered (fst (stage2 t c cd sm)) = third_dip_triggered (fst sm)"
  "month_start_price (fst (stage2 t c cd sm)) = month_start_price (fst sm)"
  "current_month (fst (stage2 t c cd sm)) = current_month (fst sm)"
  by (auto simp: stage2_def split: prod.splits)

lemma stage3_keeps [simp]:
  "first_dip_triggered (fst (stage3 t c cd f sm)) = first_dip_triggered (fst sm)"
  "monthly_deadline_triggered (fst (stage3 t c cd f sm)) = monthly_deadline_triggered (fst sm)"
  "second_dip_triggered (fst (stage3 t c cd f sm)) = second_dip_triggered (fst sm)"
  "month_start_price (fst (stage3 t c cd f sm)) = month_start_price (fst sm)"
  "current_month (fst (stage3 t c cd f sm)) = current_month (fst sm)"
  by (auto simp: stage3_def Let_def split: prod.splits)

lemma stage1_mutex:
  "\<not> (first_dip_triggered (fst sm) \<and> monthly_deadline_triggered (fst sm)) \<Longrightarrow>
   \<not> (first_dip_triggered (fst (stage1 t c r sm)) \<and>
      monthly_deadline_triggered (fst (stage1 t c r sm)))"
  by (cases sm) (auto simp: stage1_def)

lemma stage1_first:
  "first_dip_triggered (fst (stage1 t c r sm)) =
     (first_dip_triggered (fst sm) \<or> (\<not> monthly_deadline_triggered (fst sm) \<and> r \<le> - 0.01))"
  by (cases sm) (auto simp: stage1_def)

lemma stage1_deadline:
  "monthly_deadline_triggered (fst (stage1 t c r sm)) =
     (monthly_deadline_triggered (fst sm) \<or>
      (\<not> first_dip_triggered (fst sm) \<and> \<not> r \<le> - 0.01 \<and> is_third_friday t))"
  by (cases sm) (auto simp: stage1_def)

lemma stage1_noop:
  "first_dip_triggered (fst sm) \<or> monthly_deadline_triggered (fst sm) \<or>
   (\<not> r \<le> - 0.01 \<and> \<not> is_third_friday t) \<Longrightarrow> stage1 t c r sm = sm"
  by (cases sm) (auto simp: stage1_def)

lemma stage1_messages:
  "snd (stage1 t c r sm) =
     snd sm @
     (if \<not> first_dip_triggered (fst sm) \<and> \<not> monthly_deadline_triggered (fst sm) \<and> r \<le> - 0.01
      then [FirstDipMsg c r t]
      else if \<not> first_dip_triggered (fst sm) \<and> \<not> monthly_deadline_triggered (fst sm) \<and>
              is_third_friday t
      then [DeadlineMsg c r t] else [])"
  by (cases sm) (auto simp: stage1_def)

lemma stage2_second:
  "second_dip_triggered (fst (stage2 t c cd sm)) =
     (second_dip_triggered (fst sm) \<or> cd \<ge> 0.05)"
  by (cases sm) (auto simp: stage2_def)

lemma stage2_noop:
  "second_dip_triggered (fst sm) \<or> \<not> cd \<ge> 0.05 \<Longrightarrow> stage2 t c cd sm = sm"
  by (cases sm) (auto simp: stage2_def)

lemma stage2_messages:
  "snd (stage2 t c cd sm) =
     snd sm @
     (if \<not> second_dip_triggered (fst sm) \<and> cd \<ge> 0.05
      then [SecondDipMsg c (month_start_price (fst sm)) cd t] else [])"
  by (cases sm) (auto simp: stage2_def)

lemma stage3_third:
  "third_dip_triggered (fst (stage3 t c cd f sm)) =
     (third_dip_triggered (fst sm) \<or>
      (second_dip_triggered (fst sm) \<and> get_market_breadth f < 15))"
  by (cases sm) (auto simp: stage3_def Let_def)

lemma stage3_noop:
  "\<not> second_dip_triggered (fst sm) \<or> third_dip_triggered (fst sm) \<or>
   \<not> get_market_breadth f < 15 \<Longrightarrow> stage3 t c cd f sm = sm"
  by (cases sm) (auto simp: stage3_def Let_def)

lemma stage3_messages:
  "snd (stage3 t c cd f sm) =
     snd sm @
     (if second_dip_triggered (fst sm) \<and> \<not> third_dip_triggered (fst sm) \<and>
         get_market_breadth f < 15
      then [ThirdDipMsg c (get_market_breadth f) cd t] else [])"
  by (cases sm) (auto simp: stage3_def Let_def)

lemma rollover_flags:
  "first_dip_triggered (rollover st df cm) = (current_month st = cm \<and> first_dip_triggered st)"
  "monthly_deadline_triggered (rollover st df cm) =
     (current_month st = cm \<and> monthly_deadline_triggered st)"
  "second_dip_triggered (rollover st df cm) = (current_month st = cm \<and> second_dip_triggered st)"
  "third_dip_triggered (rollover st df cm) = (current_month st = cm \<and> third_dip_triggered st)"
  "current_month (rollover st df cm) = cm"
  by (auto simp: rollover_def reset_monthly_state_def Let_def)

lemma rollover_same_month: "current_month st = cm \<Longrightarrow> rollover st df cm = st"
  by (simp add: rollover_def)

lemma rollover_start_price:
  "month_start_price (rollover st df cm) =
     (if current_month st \<noteq> cm
      then (case filter (\<lambda>b. strftime_Ym (b_date b) = cm) df of
              [] \<Rightarrow> None
            | b # rest \<Rightarrow> Some (b_open b))
      else month_start_price st)"
  by (auto simp: rollover_def reset_monthly_state_def Let_def split: list.splits)

lemma check_triggers_flags:
  assumes "df \<noteq> []" "filter (\<lambda>b. b_date b = today) df \<noteq> []"
  shows "first_dip_triggered (cr_state (check_triggers st df today fetched)) =
           (first_dip_triggered (rollover st df (strftime_Ym today)) \<or>
            (\<not> monthly_deadline_triggered (rollover st df (strftime_Ym today)) \<and>
             (case b_daily_return (last (filter (\<lambda>b. b_date b = today) df)) of
                NaN \<Rightarrow> 0 | Num r \<Rightarrow> r) \<le> - 0.01))"
    and "monthly_deadline_triggered (cr_state (check_triggers st df today fetched)) =
           (monthly_deadline_triggered (rollover st df (strftime_Ym today)) \<or>
            (\<not> first_dip_triggered (rollover st df (strftime_Ym today)) \<and>
             \<not> (case b_daily_return (last (filter (\<lambda>b. b_date b = today) df)) of
                  NaN \<Rightarrow> 0 | Num r \<Rightarrow> r) \<le> - 0.01 \<and> is_third_friday today))"
    and "second_dip_triggered (cr_state (check_triggers st df today fetched)) =
           (second_dip_triggered (rollover st df (strftime_Ym today)) \<or>
            cumulative_decline_of (month_start_price (rollover st df (strftime_Ym today)))
              (b_close (last (filter (\<lambda>b. b_date b = today) df))) \<ge> 0.05)"
    and "third_dip_triggered (cr_state (check_triggers st df today fetched)) =
           (third_dip_triggered (rollover st df (strftime_Ym today)) \<or>
            (second_dip_triggered (cr_state (check_triggers st df today fetched)) \<and>
             get_market_breadth fetched < 15))"
    and "month_start_price (cr_state (check_triggers st df today fetched)) =
           month_start_price (rollover st df (strftime_Ym today))"
    and "current_month (cr_state (check_triggers st df today fetched)) = strftime_Ym today"
  using assms
  by (simp_all add: check_triggers_cases Let_def stage1_first stage1_deadline stage2_second
        stage3_third rollover_flags)

lemma check_triggers_saved:
  "cr_saved (check_triggers st df today fetched) = None \<or>
   cr_saved (check_triggers st df today fetched) =
     Some (cr_state (check_triggers st df today fetched))"
  by (simp add: check_triggers_cases Let_def)

lemma daily_runs_invariant:
  fixes runs :: "(bar list \<times> date \<times> (error + real \<times> 'g)) list"
  assumes step: "\<And>st df today (fetched :: error + real \<times> 'g).
                   P st \<Longrightarrow> P (cr_state (check_triggers st df today fetched))"
    and init: "P st"
  shows "P (daily_runs st runs)"
  using init
proof (induction runs arbitrary: st)
  case Nil
  then show ?case by simp
next
  case (Cons run runs)
  obtain df today fetched where run: "run = (df, today, fetched)"
    by (cases run) auto
  have "P (persisted st (check_triggers st df today fetched))"
    using check_triggers_saved[of st df today fetched] step[OF Cons.prems, of df today fetched]
      Cons.prems
    by (auto simp: persisted_def)
  then show ?case
    using Cons.IH run by simp
qed

lemma check_mutex:
  assumes "\<not> (first_dip_triggered st \<and> monthly_deadline_triggered st)"
  shows "\<not> (first_dip_triggered (cr_state (check_triggers st df today fetched)) \<and>
            monthly_deadline_triggered (cr_state (check_triggers st df today fetched)))"
proof (cases "df \<noteq> [] \<and> filter (\<lambda>b. b_date b = today) df \<noteq> []")
  case True
  then show ?thesis
    using assms by (auto simp: check_triggers_flags rollover_flags)
next
  case False
  then show ?thesis
    using assms by (auto simp: check_triggers_cases rollover_flags)
qed

lemma check_third_after_second:
  assumes "third_dip_triggered st \<longrightarrow> second_dip_triggered st"
  shows "third_dip_triggered (cr_state (check_triggers st df today fetched)) \<longrightarrow>
         second_dip_triggered (cr_state (check_triggers st df today fetched))"
proof (cases "df \<noteq> [] \<and> filter (\<lambda>b. b_date b = today) df \<noteq> []")
  case True
  then have t: "third_dip_triggered (cr_state (check_triggers st df today fetched)) =
           (third_dip_triggered (rollover st df (strftime_Ym today)) \<or>
            (second_dip_triggered (cr_state (check_triggers st df today fetched)) \<and>
             get_market_breadth fetched < 15))"
    and s: "second_dip_triggered (cr_state (check_triggers st df today fetched)) =
           (second_dip_triggered (rollover st df (strftime_Ym today)) \<or>
            cumulative_decline_of (month_start_price (rollover st df (strftime_Ym today)))
              (b_close (last (filter (\<lambda>b. b_date b = today) df))) \<ge> 0.05)"
    by (simp_all add: check_triggers_flags(3,4))
  show ?thesis
    using assms t s by (auto simp: rollover_flags)
next
  case False
  then show ?thesis
    using assms by (auto simp: check_triggers_cases rollover_flags)
qed

section \<open>Properties of the backtest's stages\<close>

lemma fold_invariant:
  assumes "\<And>x s. P s \<Longrightarrow> P (f x s)" and "P s"
  shows "P (fold f xs s)"
  using assms(2) by (induction xs arbitrary: s) (auto intro: assms(1))

lemma simulate_market_breadth_seeded:
  "fst (simulate_market_breadth R g d v) = fst (simulate_market_breadth R g' d v)"
  by (simp add: simulate_market_breadth_def Let_def case_prod_beta split: sum.splits)

lemma bt_stage1_keeps [simp]:
  "bt_second_dip_triggered (bt_stage1 d c r cd ms) = bt_second_dip_triggered ms"
  "bt_third_dip_triggered (bt_stage1 d c r cd ms) = bt_third_dip_triggered ms"
  "bt_month_start_price (bt_stage1 d c r cd ms) = bt_month_start_price ms"
  "bt_max_decline (bt_stage1 d c r cd ms) = bt_max_decline ms"
  by (auto simp: bt_stage1_def)

lemma bt_stage2_keeps [simp]:
  "bt_first_dip_triggered (bt_stage2 d c r cd ms) = bt_first_dip_triggered ms"
  "bt_monthly_deadline_triggered (bt_stage2 d c r cd ms) = bt_monthly_deadline_triggered ms"
  "bt_third_dip_triggered (bt_stage2 d c r cd ms) = bt_third_dip_triggered ms"
  "bt_month_start_price (bt_stage2 d c r cd ms) = bt_month_start_price ms"
  "bt_max_decline (bt_stage2 d c r cd ms) = bt_max_decline ms"
  by (auto simp: bt_stage2_def)

lemma bt_stage3_keeps [simp]:
  "bt_first_dip_triggered (fst (bt_stage3 R md i d c r cd mg)) = bt_first_dip_triggered (fst mg)"
  "bt_monthly_deadline_triggered (fst (bt_stage3 R md i d c r cd mg)) =
     bt_monthly_deadline_triggered (fst mg)"
  "bt_second_dip_triggered (fst (bt_stage3 R md i d c r cd mg)) =
     bt_second_dip_triggered (fst mg)"
  "bt_month_start_price (fst (bt_stage3 R md i d c r cd mg)) = bt_month_start_price (fst mg)"
  "bt_max_decline (fst (bt_stage3 R md i d c r cd mg)) = bt_max_decline (fst mg)"
  by (auto simp: bt_stage3_def Let_def case_prod_beta)

lemma bt_stage1_first:
  "bt_first_dip_triggered (bt_stage1 d c r cd ms) =
     (bt_first_dip_triggered ms \<or> (\<not> bt_monthly_deadline_triggered ms \<and> r \<le> - 0.01))"
  by (auto simp: bt_stage1_def)

lemma bt_stage1_deadline:
  "bt_monthly_deadline_triggered (bt_stage1 d c r cd ms) =
     (bt_monthly_deadline_triggered ms \<or>
      (\<not> bt_first_dip_triggered ms \<and> \<not> r \<le> - 0.01 \<and> backtest_is_third_friday d))"
  by (auto simp: bt_stage1_def)

lemma bt_stage1_noop:
  "bt_first_dip_triggered ms \<or> bt_monthly_deadline_triggered ms \<or>
   (\<not> r \<le> - 0.01 \<and> \<not> backtest_is_third_friday d) \<Longrightarrow> bt_stage1 d c r cd ms = ms"
  by (auto simp: bt_stage1_def)

lemma bt_stage1_triggers:
  "bt_triggers (bt_stage1 d c r cd ms) =
     bt_triggers ms @
     (if \<not> bt_first_dip_triggered ms \<and> \<not> bt_monthly_deadline_triggered ms \<and> r \<le> - 0.01
      then [\<lparr>t_date = d, t_type = FirstDip, t_daily_return = r, t_price = c,
             t_cumulative_decline = cd, t_market_breadth = None\<rparr>]
      else if \<not> bt_first_dip_triggered ms \<and> \<not> bt_monthly_deadline_triggered ms \<and>
              backtest_is_third_friday d
      then [\<lparr>t_date = d, t_type = MonthlyDeadline, t_daily_return = r, t_price = c,
             t_cumulative_decline = cd, t_market_breadth = None\<rparr>]
      else [])"
  by (auto simp: bt_stage1_def)

lemma bt_stage2_second:
  "bt_second_dip_triggered (bt_stage2 d c r cd ms) =
     (bt_second_dip_triggered ms \<or> cd \<ge> 0.05)"
  by (auto simp: bt_stage2_def)

lemma bt_stage2_noop:
  "bt_second_dip_triggered ms \<or> \<not> cd \<ge> 0.05 \<Longrightarrow> bt_stage2 d c r cd ms = ms"
  by (auto simp: bt_stage2_def)

lemma bt_stage2_triggers:
  "bt_triggers (bt_stage2 d c r cd ms) =
     bt_triggers ms @
     (if \<not> bt_second_dip_triggered ms \<and> cd \<ge> 0.05
      then [\<lparr>t_date = d, t_type = SecondDip, t_daily_return = r, t_price = c,
             t_cumulative_decline = cd, t_market_breadth = None\<rparr>]
      else [])"
  by (auto simp: bt_stage2_def)

lemma bt_stage3_third:
  "bt_third_dip_triggered (fst (bt_stage3 R md i d c r cd mg)) =
     (bt_third_dip_triggered (fst mg) \<or>
      (bt_second_dip_triggered (fst mg) \<and>
       py_lt (fst (simulate_market_breadth R (snd mg) d (recent_volatility md i))) (Num 15)))"
  by (auto simp: bt_stage3_def Let_def case_prod_beta)

lemma bt_stage3_noop:
  "\<not> bt_second_dip_triggered (fst mg) \<or> bt_third_dip_triggered (fst mg) \<or>
   \<not> py_lt (fst (simulate_market_breadth R (snd mg) d (recent_volatility md i))) (Num 15) \<Longrightarrow>
   fst (bt_stage3 R md i d c r cd mg) = fst mg"
  by (auto simp: bt_stage3_def Let_def case_prod_beta)

lemma bt_stage3_triggers:
  "bt_triggers (fst (bt_stage3 R md i d c r cd mg)) =
     bt_triggers (fst mg) @
     (if bt_second_dip_triggered (fst mg) \<and> \<not> bt_third_dip_triggered (fst mg) \<and>
         py_lt (fst (simulate_market_breadth R (snd mg) d (recent_volatility md i))) (Num 15)
      then [\<lparr>t_date = d, t_type = ThirdDip, t_daily_return = r, t_price = c,
             t_cumulative_decline = cd,
             t_market_breadth =
               Some (fst (simulate_market_breadth R (snd mg) d (recent_volatility md i)))\<rparr>]
      else [])"
  by (auto simp: bt_stage3_def Let_def case_prod_beta)

lemma analyze_row_fst:
  "fst (analyze_row R md (i, row) (ms, g)) =
     fst (bt_stage3 R md i (b_date row) (b_close row)
            (case b_daily_return row of NaN \<Rightarrow> 0 | Num r \<Rightarrow> r)
            ((bt_month_start_price ms - b_close row) / bt_month_start_price ms)
            (bt_stage2 (b_date row) (b_close row)
               (case b_daily_return row of NaN \<Rightarrow> 0 | Num r \<Rightarrow> r)
               ((bt_month_start_price ms - b_close row) / bt_month_start_price ms)
               (bt_stage1 (b_date row) (b_close row)
                  (case b_daily_return row of NaN \<Rightarrow> 0 | Num r \<Rightarrow> r)
                  ((bt_month_start_price ms - b_close row) / bt_month_start_price ms)
                  (ms\<lparr>bt_max_decline :=
                        max (bt_max_decline ms)
                          ((bt_month_start_price ms - b_close row) / bt_month_start_price ms)\<rparr>)),
             g))"
  by (simp add: analyze_row_def Let_def)

lemma analyze_row_flags:
  "bt_first_dip_triggered (fst (analyze_row R md (i, row) (ms, g))) =
     (bt_first_dip_triggered ms \<or>
      (\<not> bt_monthly_deadline_triggered ms \<and>
       (case b_daily_return row of NaN \<Rightarrow> 0 | Num r \<Rightarrow> r) \<le> - 0.01))"
  "bt_monthly_deadline_triggered (fst (analyze_row R md (i, row) (ms, g))) =
     (bt_monthly_deadline_triggered ms \<or>
      (\<not> bt_first_dip_triggered ms \<and>
       \<not> (case b_daily_return row of NaN \<Rightarrow> 0 | Num r \<Rightarrow> r) \<le> - 0.01 \<and>
       backtest_is_third_friday (b_date row)))"
  "bt_second_dip_triggered (fst (analyze_row R md (i, row) (ms, g))) =
     (bt_second_dip_triggered ms \<or>
      (bt_month_start_price ms - b_close row) / bt_month_start_price ms \<ge> 0.05)"
  "bt_third_dip_triggered (fst (analyze_row R md (i, row) (ms, g))) =
     (bt_third_dip_triggered ms \<or>
      (bt_second_dip_triggered (fst (analyze_row R md (i, row) (ms, g))) \<and>
       py_lt (fst (simulate_market_breadth R g (b_date row) (recent_volatility md i))) (Num 15)))"
  "bt_month_start_price (fst (analyze_row R md (i, row) (ms, g))) = bt_month_start_price ms"
  "bt_max_decline (fst (analyze_row R md (i, row) (ms, g))) =
     max (bt_max_decline ms)
       ((bt_month_start_price ms - b_close row) / bt_month_start_price ms)"
  by (simp_all add: analyze_row_fst bt_stage1_first bt_stage1_deadline bt_stage2_second
        bt_stage3_third)

lemma analyze_month_Some:
  assumes "analyze_month R g monthly_data month_str = (Some ms, g')"
  shows "monthly_data \<noteq> []" and "b_open (hd monthly_data) \<noteq> 0"
    and "ms = fst (fold (analyze_row R monthly_data) (enumerate 0 monthly_data)
                     (initial_month_state monthly_data month_str, g))"
  using assms
  by (auto simp: analyze_month_def split: if_splits prod.splits)

lemma analyze_month_invariant:
  assumes step: "\<And>i row ms g. P ms \<Longrightarrow> P (fst (analyze_row R monthly_data (i, row) (ms, g)))"
    and init: "P (initial_month_state monthly_data month_str)"
    and res: "analyze_month R g monthly_data month_str = (Some ms, g')"
  shows "P ms"
proof -
  have "(P \<circ> fst) (fold (analyze_row R monthly_data) (enumerate 0 monthly_data)
                     (initial_month_state monthly_data month_str, g))"
  proof (rule fold_invariant)
    fix x :: "nat \<times> bar" and s :: "month_state \<times> 'a"
    assume "(P \<circ> fst) s"
    then show "(P \<circ> fst) (analyze_row R monthly_data x s)"
      using step[of "fst s" "fst x" "snd x" "snd s"] by simp
  next
    show "(P \<circ> fst) (initial_month_state monthly_data month_str, g)"
      using init by simp
  qed
  then show ?thesis
    using analyze_month_Some(3)[OF res] by simp
qed

lemma analyze_row_mutex:
  "\<not> (bt_first_dip_triggered ms \<and> bt_monthly_deadline_triggered ms) \<Longrightarrow>
   \<not> (bt_first_dip_triggered (fst (analyze_row R md (i, row) (ms, g))) \<and>
      bt_monthly_deadline_triggered (fst (analyze_row R md (i, row) (ms, g))))"
  by (auto simp: analyze_row_flags)

lemma analyze_row_third_after_second:
  assumes "bt_third_dip_triggered ms \<longrightarrow> bt_second_dip_triggered ms"
  shows "bt_third_dip_triggered (fst (analyze_row R md (i, row) (ms, g))) \<longrightarrow>
         bt_second_dip_triggered (fst (analyze_row R md (i, row) (ms, g)))"
  using assms analyze_row_flags(3,4)[of R md i row ms g] by blast

section \<open>Properties of the calendar utility\<close>

lemma days_in_month_bounds: "28 \<le> days_in_month y m \<and> days_in_month y m \<le> 31"
  by (simp add: days_in_month_def)

lemma weekday_of_day:
  "weekday \<lparr>year = y, month = m, day = j\<rparr> =
     ((days_before_year y + days_before_month y m + 6) mod 7 + j) mod 7"
proof -
  have "(a + j + 6) mod 7 = ((a + 6) mod 7 + j) mod 7" for a :: nat
    by presburger
  then show ?thesis
    by (simp add: weekday_def toordinal_def)
qed

lemma fridays_from_other_month:
  "month d \<noteq> m \<Longrightarrow> fridays_from m d fs = Inr fs"
  by (simp add: fridays_from.simps)

text \<open>The loop, started anywhere in a month other than December 9999, collects the
  Fridays up to the end of the month.\<close>

lemma fridays_from_collects:
  assumes "\<not> (y = 9999 \<and> m = 12)" and "k \<le> days_in_month y m"
  shows "fridays_from m \<lparr>year = y, month = m, day = k\<rparr> fs =
           Inr (fs @ filter (\<lambda>d. weekday d = 4)
                       (map (\<lambda>j. \<lparr>year = y, month = m, day = j\<rparr>)
                          [k..<Suc (days_in_month y m)]))"
  using assms(2)
proof (induction "days_in_month y m - k" arbitrary: k fs)
  case 0
  then have k: "k = days_in_month y m" by simp
  have "\<exists>nxt. add_one_day \<lparr>year = y, month = m, day = days_in_month y m\<rparr> = Inr nxt \<and>
               month nxt \<noteq> m"
    using assms(1) by (auto simp: add_one_day_def)
  then obtain nxt
    where n: "add_one_day \<lparr>year = y, month = m, day = days_in_month y m\<rparr> = Inr nxt"
      and nm: "month nxt \<noteq> m" by blast
  show ?case
    unfolding k by (subst fridays_from.simps) (simp add: n fridays_from_other_month[OF nm])
next
  case (Suc n)
  then have lt: "k < days_in_month y m" by simp
  have n: "add_one_day \<lparr>year = y, month = m, day = k\<rparr> = Inr \<lparr>year = y, month = m, day = Suc k\<rparr>"
    using lt assms(1) by (auto simp: add_one_day_def)
  have up: "[k..<Suc (days_in_month y m)] = k # [Suc k..<Suc (days_in_month y m)]"
    using lt by (simp add: upt_conv_Cons)
  have ih: "fridays_from m \<lparr>year = y, month = m, day = Suc k\<rparr> fs' =
           Inr (fs' @ filter (\<lambda>d. weekday d = 4)
                       (map (\<lambda>j. \<lparr>year = y, month = m, day = j\<rparr>)
                          [Suc k..<Suc (days_in_month y m)]))" for fs'
    using Suc.hyps(1)[of "Suc k" fs'] Suc.hyps(2) lt by simp
  show ?case
    by (subst fridays_from.simps) (simp add: n ih up del: upt_Suc)
qed

text \<open>In December 9999 the loop runs into \<open>date.max\<close> and raises.\<close>

lemma fridays_from_overflow:
  assumes "k \<le> 31"
  shows "fridays_from 12 \<lparr>year = 9999, month = 12, day = k\<rparr> fs = Inl OverflowError"
  using assms
proof (induction "31 - k" arbitrary: k fs)
  case 0
  then have "k = 31" by simp
  then show ?case
    by (subst fridays_from.simps) (simp add: add_one_day_def)
next
  case (Suc n)
  then have lt: "k < 31" by simp
  have n: "add_one_day \<lparr>year = 9999, month = 12, day = k\<rparr> =
             Inr \<lparr>year = 9999, month = 12, day = Suc k\<rparr>"
    using lt by (auto simp: add_one_day_def days_in_month_def)
  have ih: "fridays_from 12 \<lparr>year = 9999, month = 12, day = Suc k\<rparr> fs' = Inl OverflowError"
    for fs'
    using Suc.hyps(1)[of "Suc k" fs'] Suc.hyps(2) lt by simp
  show ?case
    by (subst fridays_from.simps) (simp add: n ih)
qed

text \<open>The Fridays among the days 1 to 28 of a month whose day \<open>j\<close> has weekday
  \<open>(w + j) mod 7\<close>.\<close>

lemma fridays_first_four_weeks:
  fixes w :: nat
  assumes "w < 7"
  shows "filter (\<lambda>j. (w + j) mod 7 = 4) [1..<29] =
           [(10 - w) mod 7 + 1, (10 - w) mod 7 + 8, (10 - w) mod 7 + 15, (10 - w) mod 7 + 22]"
proof -
  have "w = 0 \<or> w = 1 \<or> w = 2 \<or> w = 3 \<or> w = 4 \<or> w = 5 \<or> w = 6"
    using assms by arith
  then show ?thesis
    by (elim disjE) (simp_all add: upt_rec)
qed

lemma third_friday_day:
  fixes w :: nat
  assumes "w < 7" and "28 \<le> n"
  shows "length (filter (\<lambda>j. (w + j) mod 7 = 4) [1..<Suc n]) \<ge> 3"
    and "filter (\<lambda>j. (w + j) mod 7 = 4) [1..<Suc n] ! 2 = (10 - w) mod 7 + 15"
proof -
  have split: "[1..<Suc n] = [1..<29] @ [29..<Suc n]"
    using assms(2) upt_add_eq_append[of 1 29 "Suc n - 29"] by simp
  have eq: "filter (\<lambda>j. (w + j) mod 7 = 4) [1..<Suc n] =
          [(10 - w) mod 7 + 1, (10 - w) mod 7 + 8, (10 - w) mod 7 + 15, (10 - w) mod 7 + 22] @
          filter (\<lambda>j. (w + j) mod 7 = 4) [29..<Suc n]"
    unfolding split filter_append fridays_first_four_weeks[OF assms(1)] ..
  show "length (filter (\<lambda>j. (w + j) mod 7 = 4) [1..<Suc n]) \<ge> 3"
    unfolding eq by simp
  show "filter (\<lambda>j. (w + j) mod 7 = 4) [1..<Suc n] ! 2 = (10 - w) mod 7 + 15"
    unfolding eq by simp
qed

lemma third_friday_day_iff:
  fixes w j :: nat
  assumes "w < 7"
  shows "j = (10 - w) mod 7 + 15 \<longleftrightarrow> (w + j) mod 7 = 4 \<and> 15 \<le> j \<and> j \<le> 21"
proof -
  have "w = 0 \<or> w = 1 \<or> w = 2 \<or> w = 3 \<or> w = 4 \<or> w = 5 \<or> w = 6"
    using assms by arith
  then show ?thesis
    by (elim disjE) (simp_all, presburger+)
qed

lemma third_friday_list:
  fixes y m :: nat
  defines "fridays \<equiv> filter (\<lambda>d. weekday d = 4)
                       (map (\<lambda>j. \<lparr>year = y, month = m, day = j\<rparr>)
                          [1..<Suc (days_in_month y m)])"
  shows "length fridays \<ge> 3"
    and "(\<lparr>year = y, month = m, day = j\<rparr> = fridays ! 2) \<longleftrightarrow>
         (weekday \<lparr>year = y, month = m, day = j\<rparr> = 4 \<and> 15 \<le> j \<and> j \<le> 21)"
proof -
  define w where "w = (days_before_year y + days_before_month y m + 6) mod 7"
  define fl where "fl = filter (\<lambda>j. (w + j) mod 7 = 4) [1..<Suc (days_in_month y m)]"
  have w: "w < 7" by (simp add: w_def)
  have n: "28 \<le> days_in_month y m" using days_in_month_bounds by simp
  have fr: "fridays = map (\<lambda>j. \<lparr>year = y, month = m, day = j\<rparr>) fl"
    unfolding fridays_def fl_def w_def filter_map comp_def weekday_of_day ..
  have len: "length fl \<ge> 3" and third: "fl ! 2 = (10 - w) mod 7 + 15"
    unfolding fl_def using third_friday_day[OF w n] by simp_all
  show "length fridays \<ge> 3" using len fr by simp
  have "fridays ! 2 = \<lparr>year = y, month = m, day = (10 - w) mod 7 + 15\<rparr>"
    using len third fr by simp
  then show "(\<lparr>year = y, month = m, day = j\<rparr> = fridays ! 2) \<longleftrightarrow>
         (weekday \<lparr>year = y, month = m, day = j\<rparr> = 4 \<and> 15 \<le> j \<and> j \<le> 21)"
    using third_friday_day_iff[OF w, of j] by (simp add: weekday_of_day w_def)
qed

lemma spec_is_third_friday_iff:
  "spec_is_third_friday d \<longleftrightarrow> weekday d = 4 \<and> 15 \<le> day d \<and> day d \<le> 21"
proof -
  have d: "d = \<lparr>year = year d, month = month d, day = day d\<rparr>" by simp
  show ?thesis
    unfolding spec_is_third_friday_def Let_def
    using third_friday_list(1)[where y = "year d" and m = "month d"]
      third_friday_list(2)[where y = "year d" and m = "month d" and j = "day d"]
    by (simp flip: d)
qed

lemma is_third_friday_code:
  assumes "valid_date d" and "\<not> (year d = 9999 \<and> month d = 12)"
  shows "is_third_friday d \<longleftrightarrow> weekday d = 4 \<and> 15 \<le> day d \<and> day d \<le> 21"
proof -
  define fridays where
    "fridays = filter (\<lambda>x. weekday x = 4)
                 (map (\<lambda>j. \<lparr>year = year d, month = month d, day = j\<rparr>)
                    [1..<Suc (days_in_month (year d) (month d))])"
  have d: "d = \<lparr>year = year d, month = month d, day = day d\<rparr>" by simp
  have first: "mk_date (year d) (month d) 1 = Inr \<lparr>year = year d, month = month d, day = 1\<rparr>"
    using assms(1) days_in_month_bounds[of "year d" "month d"]
    by (simp add: mk_date_def valid_date_def)
  have one: "1 \<le> days_in_month (year d) (month d)"
    using days_in_month_bounds[of "year d" "month d"] by simp
  have loop: "fridays_from (month d) \<lparr>year = year d, month = month d, day = 1\<rparr> [] =
          Inr fridays"
    unfolding fridays_def using fridays_from_collects[OF assms(2) one, of "[]"] by simp
  have len: "length fridays \<ge> 3"
    unfolding fridays_def by (rule third_friday_list(1))
  have third: "(d = fridays ! 2) \<longleftrightarrow> (weekday d = 4 \<and> 15 \<le> day d \<and> day d \<le> 21)"
    unfolding fridays_def
    using third_friday_list(2)[where y = "year d" and m = "month d" and j = "day d"]
    by (simp only: d[symmetric])
  have "is_third_friday d \<longleftrightarrow> d = fridays ! 2"
    using len by (simp only: is_third_friday_def first loop sum.case if_True)
  then show ?thesis
    using third by simp
qed

lemma backtest_is_third_friday_eq: "backtest_is_third_friday d = is_third_friday d"
  by (simp add: backtest_is_third_friday_def is_third_friday_def)

lemma is_third_friday_december_9999:
  assumes "year d = 9999" and "month d = 12"
  shows "\<not> is_third_friday d"
  using assms fridays_from_overflow[of 1 "[]"]
  by (simp add: is_third_friday_def mk_date_def valid_date_def days_in_month_def)

section \<open>Evaluating the example data\<close>

lemma example_frame_today:
  "example_frame \<noteq> []"
  "filter (\<lambda>b. b_date b = example_today) example_frame = [simple_bar example_today 99 94 (Num (- 0.0505))]"
  by (simp_all add: example_frame_def example_today_def simple_bar_def)

lemma example_month: "strftime_Ym example_today = ''2024-08''"
  by (simp add: example_today_def strftime_Ym_def zfill_def show_nat.simps digit_char_def)

lemma example_frame_month:
  "filter (\<lambda>b. strftime_Ym (b_date b) = ''2024-08'') example_frame = example_frame"
  by (simp add: example_frame_def example_today_def simple_bar_def strftime_Ym_def zfill_def
        show_nat.simps digit_char_def)

lemma example_rollover:
  "rollover default_state example_frame ''2024-08'' =
     default_state\<lparr>current_month := ''2024-08'', month_start_price := Some 100\<rparr>"
  by (simp add: rollover_def reset_monthly_state_def Let_def example_frame_month)
     (simp add: default_state_def example_frame_def simple_bar_def)

lemma example_month_some:
  "fst (analyze_month example_rng 0 example_frame ''2024-08'') \<noteq> None"
  by (simp add: analyze_month_def example_frame_def simple_bar_def case_prod_beta)

lemma example_month_analysed:
  "analyze_month example_rng 0 example_frame ''2024-08'' =
     (Some (the (fst (analyze_month example_rng 0 example_frame ''2024-08''))),
      snd (analyze_month example_rng 0 example_frame ''2024-08''))"
  using example_month_some
  by (cases "analyze_month example_rng 0 example_frame ''2024-08''") auto

lemma example_seed: "py_int (strftime_Ymd_compact example_today) = Inr 20240805"
  by (simp add: example_today_def strftime_Ymd_compact_def zfill_def show_nat.simps
        digit_char_def py_int_def digit_value_def upt_conv_Cons)

section \<open>The claims\<close>

text \<open>
  C1.  The flags \<open>first_dip_triggered\<close> and \<open>monthly_deadline_triggered\<close> are never
  both true: a run of \<open>check_triggers\<close> keeps them exclusive, so does every sequence of
  daily runs from the default state, and so does the month state that the backtest's
  \<open>analyze_month\<close> returns.
\<close>

theorem stage1_flags_exclusive:
  fixes fetched :: "error + real \<times> 'g"
    and runs :: "(bar list \<times> date \<times> (error + real \<times> 'g)) list"
    and R :: "'h rng"
  shows "(\<not> (first_dip_triggered st \<and> monthly_deadline_triggered st) \<longrightarrow>
          \<not> (first_dip_triggered (cr_state (check_triggers st df today fetched)) \<and>
             monthly_deadline_triggered (cr_state (check_triggers st df today fetched)))) \<and>
         \<not> (first_dip_triggered (daily_runs default_state runs) \<and>
            monthly_deadline_triggered (daily_runs default_state runs)) \<and>
         (analyze_month R g monthly_data month_str = (Some ms, g') \<longrightarrow>
          \<not> (bt_first_dip_triggered ms \<and> bt_monthly_deadline_triggered ms))"
proof (intro conjI impI)
  assume "\<not> (first_dip_triggered st \<and> monthly_deadline_triggered st)"
  then show "\<not> (first_dip_triggered (cr_state (check_triggers st df today fetched)) \<and>
             monthly_deadline_triggered (cr_state (check_triggers st df today fetched)))"
    by (rule check_mutex)
next
  show "\<not> (first_dip_triggered (daily_runs default_state runs) \<and>
            monthly_deadline_triggered (daily_runs default_state runs))"
    by (rule daily_runs_invariant[where P = "\<lambda>s. \<not> (first_dip_triggered s \<and> monthly_deadline_triggered s)"])
       (simp_all add: check_mutex default_state_def)
next
  assume "analyze_month R g monthly_data month_str = (Some ms, g')"
  then show "\<not> (bt_first_dip_triggered ms \<and> bt_monthly_deadline_triggered ms)"
    by (rule analyze_month_invariant[where
          P = "\<lambda>s. \<not> (bt_first_dip_triggered s \<and> bt_monthly_deadline_triggered s)", rotated 2])
       (simp_all add: analyze_row_mutex initial_month_state_def Let_def)
qed

theorem stage1_flags_exclusive_witness:
  "\<not> (first_dip_triggered default_state \<and> monthly_deadline_triggered default_state) \<and>
   first_dip_triggered
     (cr_state (check_triggers default_state example_frame example_today
        (Inl FetchError :: error + real \<times> unit))) \<and>
   \<not> monthly_deadline_triggered
     (cr_state (check_triggers default_state example_frame example_today
        (Inl FetchError :: error + real \<times> unit))) \<and>
   fst (analyze_month example_rng 0 example_frame ''2024-08'') \<noteq> None \<and>
   \<not> (bt_first_dip_triggered (the (fst (analyze_month example_rng 0 example_frame ''2024-08''))) \<and>
      bt_monthly_deadline_triggered
        (the (fst (analyze_month example_rng 0 example_frame ''2024-08''))))"
  using stage1_flags_exclusive[of default_state example_frame example_today
          "Inl FetchError :: error + real \<times> unit" "[]" example_rng 0 example_frame "''2024-08''"
          "the (fst (analyze_month example_rng 0 example_frame ''2024-08''))"
          "snd (analyze_month example_rng 0 example_frame ''2024-08'')"]
    example_month_analysed example_month_some
  by (simp add: default_state_def check_triggers_flags example_frame_today rollover_flags
        simple_bar_def)

text \<open>
  C2.  \<open>third_dip_triggered\<close> is true only if \<open>second_dip_triggered\<close> is: a run of
  \<open>check_triggers\<close> keeps this, it holds after every sequence of daily runs from the
  default state, and it holds of the month state that \<open>analyze_month\<close> returns.
\<close>

theorem third_dip_only_after_second:
  fixes fetched :: "error + real \<times> 'g"
    and runs :: "(bar list \<times> date \<times> (error + real \<times> 'g)) list"
    and R :: "'h rng"
  shows "((third_dip_triggered st \<longrightarrow> second_dip_triggered st) \<longrightarrow>
          (third_dip_triggered (cr_state (check_triggers st df today fetched)) \<longrightarrow>
           second_dip_triggered (cr_state (check_triggers st df today fetched)))) \<and>
         (third_dip_triggered (daily_runs default_state runs) \<longrightarrow>
          second_dip_triggered (daily_runs default_state runs)) \<and>
         (analyze_month R g monthly_data month_str = (Some ms, g') \<longrightarrow>
          (bt_third_dip_triggered ms \<longrightarrow> bt_second_dip_triggered ms))"
proof (intro conjI)
  show "(third_dip_triggered st \<longrightarrow> second_dip_triggered st) \<longrightarrow>
          (third_dip_triggered (cr_state (check_triggers st df today fetched)) \<longrightarrow>
           second_dip_triggered (cr_state (check_triggers st df today fetched)))"
    using check_third_after_second by blast
next
  show "third_dip_triggered (daily_runs default_state runs) \<longrightarrow>
          second_dip_triggered (daily_runs default_state runs)"
    by (rule daily_runs_invariant[where
          P = "\<lambda>s. third_dip_triggered s \<longrightarrow> second_dip_triggered s"])
       (simp_all add: check_third_after_second default_state_def)
next
  show "analyze_month R g monthly_data month_str = (Some ms, g') \<longrightarrow>
          (bt_third_dip_triggered ms \<longrightarrow> bt_second_dip_triggered ms)"
  proof
    assume "analyze_month R g monthly_data month_str = (Some ms, g')"
    then show "bt_third_dip_triggered ms \<longrightarrow> bt_second_dip_triggered ms"
      by (rule analyze_month_invariant[where
            P = "\<lambda>s. bt_third_dip_triggered s \<longrightarrow> bt_second_dip_triggered s", rotated 2])
         (simp_all add: analyze_row_third_after_second initial_month_state_def Let_def)
  qed
qed

theorem third_dip_only_after_second_witness:
  "third_dip_triggered
     (cr_state (check_triggers default_state example_frame example_today
        (Inr (10, ()) :: error + real \<times> unit))) \<and>
   second_dip_triggered
     (cr_state (check_triggers default_state example_frame example_today
        (Inr (10, ()) :: error + real \<times> unit))) \<and>
   fst (analyze_month example_rng 0 example_frame ''2024-08'') \<noteq> None"
  using third_dip_only_after_second[of default_state example_frame example_today
          "Inr (10, ()) :: error + real \<times> unit" "[]" example_rng 0 example_frame "''2024-08''"
          "the (fst (analyze_month example_rng 0 example_frame ''2024-08''))"
          "snd (analyze_month example_rng 0 example_frame ''2024-08'')"]
    example_month_analysed example_month_some
  by (simp add: check_triggers_flags example_frame_today rollover_flags example_month
        example_rollover cumulative_decline_of_def get_market_breadth_def simple_bar_def)

text \<open>
  C3.  While the start price is unset (\<open>None\<close>, or zero) the cumulative decline is
  computed as 0, so the run sets no \<open>second_dip_triggered\<close> flag and sends no second
  reminder.
\<close>

theorem second_dip_needs_start_price:
  fixes fetched :: "error + real \<times> 'g"
  assumes "month_start_price (cr_state (check_triggers st df today fetched)) = None \<or>
           month_start_price (cr_state (check_triggers st df today fetched)) = Some 0"
  shows "cumulative_decline_of (month_start_price (cr_state (check_triggers st df today fetched)))
           today_close = 0 \<and>
         (second_dip_triggered (cr_state (check_triggers st df today fetched)) \<longrightarrow>
          second_dip_triggered st) \<and>
         (\<forall>m \<in> set (cr_sent (check_triggers st df today fetched)). message_type m \<noteq> SecondDip)"
proof (cases "df \<noteq> [] \<and> filter (\<lambda>b. b_date b = today) df \<noteq> []")
  case True
  let ?st1 = "rollover st df (strftime_Ym today)"
  have sp: "month_start_price ?st1 = None \<or> month_start_price ?st1 = Some 0"
    using assms True by (simp add: check_triggers_flags)
  have cd: "cumulative_decline_of (month_start_price ?st1) c = 0" for c
    using sp by (auto simp: cumulative_decline_of_def)
  have flag: "second_dip_triggered (cr_state (check_triggers st df today fetched)) =
                second_dip_triggered ?st1"
    using True by (simp add: check_triggers_flags cd)
  have sent: "\<forall>m \<in> set (cr_sent (check_triggers st df today fetched)). message_type m \<noteq> SecondDip"
    using True
    by (auto simp: check_triggers_cases Let_def cd stage3_messages stage2_messages
          stage1_messages split: if_splits)
  show ?thesis
    using assms flag sent by (auto simp: cumulative_decline_of_def rollover_flags)
next
  case False
  then show ?thesis
    using assms by (auto simp: check_triggers_cases cumulative_decline_of_def rollover_flags)
qed

theorem second_dip_needs_start_price_witness:
  "month_start_price
     (cr_state (check_triggers (default_state\<lparr>current_month := ''2024-08''\<rparr>) example_frame
        example_today (Inl FetchError :: error + real \<times> unit))) = None \<and>
   \<not> second_dip_triggered
     (cr_state (check_triggers (default_state\<lparr>current_month := ''2024-08''\<rparr>) example_frame
        example_today (Inl FetchError :: error + real \<times> unit))) \<and>
   cr_sent (check_triggers (default_state\<lparr>current_month := ''2024-08''\<rparr>) example_frame
        example_today (Inl FetchError :: error + real \<times> unit)) \<noteq> []"
  using second_dip_needs_start_price[of "default_state\<lparr>current_month := ''2024-08''\<rparr>"
          example_frame example_today "Inl FetchError :: error + real \<times> unit" 94]
  by (simp add: check_triggers_flags check_triggers_cases example_frame_today example_month
        rollover_same_month Let_def stage1_messages stage2_messages stage3_messages
        stage2_second cumulative_decline_of_def default_state_def simple_bar_def)

text \<open>
  C4.  The breadth lookup of the live monitor never fails its caller, and two of its
  three fallbacks stay at or above 15: the exception fallback of
  \<open>RSPMonitor.get_market_breadth\<close> is 20, and the simulated value of
  \<open>MarketBreadthFetcher\<close>, returned when every source failed, lies between 15 and 35.
  The substitute class installed when the import fails draws from 10 up to 30, so it is
  not bounded below by 15.  The generator is only assumed to draw from \<open>[0, 1)\<close>.
\<close>

theorem breadth_fallbacks:
  fixes R :: "'g rng"
  assumes "rng_ok R"
  shows "get_market_breadth (Inl e :: error + real \<times> 'g) = 20 \<and>
         15 \<le> get_market_breadth (get_simulated_breadth R now) \<and>
         get_market_breadth (get_simulated_breadth R now) \<le> 35 \<and>
         (first_breadth sources = None \<longrightarrow>
            15 \<le> get_market_breadth (fetcher_get_market_breadth R g now sources) \<and>
            get_market_breadth (fetcher_get_market_breadth R g now sources) \<le> 35) \<and>
         10 \<le> get_market_breadth (substitute_get_market_breadth R g) \<and>
         get_market_breadth (substitute_get_market_breadth R g) < 30"
proof -
  have draw: "0 \<le> fst (rng_random R h) \<and> fst (rng_random R h) < 1" for h
    using assms by (simp add: rng_ok_def)
  have sim: "15 \<le> get_market_breadth (get_simulated_breadth R now) \<and>
             get_market_breadth (get_simulated_breadth R now) \<le> 35"
  proof (cases "py_int (strftime_Ymd_compact now)")
    case (Inl err)
    then show ?thesis
      by (simp add: get_simulated_breadth_def get_market_breadth_def)
  next
    case (Inr n)
    then show ?thesis
      using draw[of "rng_seed R (n mod 1000)"]
      by (simp add: get_simulated_breadth_def get_market_breadth_def uniform_def Let_def
            case_prod_beta)
  qed
  have fetch: "first_breadth sources = None \<longrightarrow>
            15 \<le> get_market_breadth (fetcher_get_market_breadth R g now sources) \<and>
            get_market_breadth (fetcher_get_market_breadth R g now sources) \<le> 35"
    using sim by (simp add: fetcher_get_market_breadth_def)
  have sub: "10 \<le> get_market_breadth (substitute_get_market_breadth R g) \<and>
             get_market_breadth (substitute_get_market_breadth R g) < 30"
    using draw[of g]
    by (simp add: substitute_get_market_breadth_def get_market_breadth_def uniform_def
          case_prod_beta)
  have exc: "get_market_breadth (Inl e :: error + real \<times> 'g) = 20"
    by (simp add: get_market_breadth_def)
  show ?thesis
    using exc sim fetch sub by blast
qed

theorem breadth_fallbacks_witness:
  "rng_ok example_rng \<and>
   get_market_breadth (Inl FetchError :: error + real \<times> nat) = 20 \<and>
   15 \<le> get_market_breadth (fetcher_get_market_breadth example_rng 7 example_today [None, None]) \<and>
   get_market_breadth (substitute_get_market_breadth example_rng 7) = 24"
  using breadth_fallbacks[where R = example_rng and e = FetchError and now = example_today
          and sources = "[None, None]" and g = 7]
  by (simp add: rng_ok_def example_rng_def substitute_get_market_breadth_def
        get_market_breadth_def uniform_def)

text \<open>
  With the substitute class a draw of 0.1 gives a breadth of 12, and the run of the
  example day then sends the third reminder.
\<close>

theorem substitute_breadth_below_threshold:
  "rng_ok example_rng \<and>
   get_market_breadth (substitute_get_market_breadth example_rng 1) = 12 \<and>
   get_market_breadth (substitute_get_market_breadth example_rng 1) < 15 \<and>
   third_dip_triggered
     (cr_state (check_triggers default_state example_frame example_today
        (substitute_get_market_breadth example_rng 1)))"
proof -
  have ok: "rng_ok example_rng"
    by (simp add: rng_ok_def example_rng_def)
  have b: "get_market_breadth (substitute_get_market_breadth example_rng 1) = 12"
    by (simp add: example_rng_def substitute_get_market_breadth_def get_market_breadth_def
          uniform_def)
  have "third_dip_triggered
     (cr_state (check_triggers default_state example_frame example_today
        (substitute_get_market_breadth example_rng 1)))"
    using b
    by (simp add: check_triggers_flags example_frame_today rollover_flags example_month
          example_rollover cumulative_decline_of_def simple_bar_def)
  then show ?thesis
    using ok b by simp
qed

text \<open>
  C6.  The live monitor sets \<open>month_start_price\<close> only in the month rollover: when the
  frame is not empty and the month of the loaded state is not today's month, the start
  price becomes the open of the first row of the frame that lies in today's month
  (\<open>None\<close> when there is no such row); otherwise it is left as loaded, so a start price
  that is unset in a state of the current month stays unset.  The cumulative decline of
  the run is computed from that start price.  The backtest takes the open of the first
  row of the month before it evaluates any row.
\<close>

theorem month_start_price_from_rollover:
  fixes fetched :: "error + real \<times> 'g" and R :: "'h rng"
  shows "month_start_price (cr_state (check_triggers st df today fetched)) =
           (if df \<noteq> [] \<and> current_month st \<noteq> strftime_Ym today
            then (case filter (\<lambda>b. strftime_Ym (b_date b) = strftime_Ym today) df of
                    [] \<Rightarrow> None
                  | b # rest \<Rightarrow> Some (b_open b))
            else month_start_price st) \<and>
         (filter (\<lambda>b. b_date b = today) df \<noteq> [] \<longrightarrow>
            second_dip_triggered (cr_state (check_triggers st df today fetched)) =
              (second_dip_triggered (rollover st df (strftime_Ym today)) \<or>
               cumulative_decline_of
                 (month_start_price (cr_state (check_triggers st df today fetched)))
                 (b_close (last (filter (\<lambda>b. b_date b = today) df))) \<ge> 0.05)) \<and>
         (analyze_month R g monthly_data month_str = (Some ms, g') \<longrightarrow>
            bt_month_start_price ms = b_open (hd monthly_data))"
proof (intro conjI impI)
  show "month_start_price (cr_state (check_triggers st df today fetched)) =
           (if df \<noteq> [] \<and> current_month st \<noteq> strftime_Ym today
            then (case filter (\<lambda>b. strftime_Ym (b_date b) = strftime_Ym today) df of
                    [] \<Rightarrow> None
                  | b # rest \<Rightarrow> Some (b_open b))
            else month_start_price st)"
  proof (cases "df = []")
    case True
    then show ?thesis
      by (simp add: check_triggers_cases)
  next
    case ne: False
    show ?thesis
    proof (cases "filter (\<lambda>b. b_date b = today) df = []")
      case True
      then show ?thesis
        using ne by (simp add: check_triggers_cases rollover_start_price)
    next
      case False
      then show ?thesis
        using ne by (simp add: check_triggers_flags(5) rollover_start_price)
    qed
  qed
next
  assume today: "filter (\<lambda>b. b_date b = today) df \<noteq> []"
  then have ne: "df \<noteq> []"
    by auto
  show "second_dip_triggered (cr_state (check_triggers st df today fetched)) =
              (second_dip_triggered (rollover st df (strftime_Ym today)) \<or>
               cumulative_decline_of
                 (month_start_price (cr_state (check_triggers st df today fetched)))
                 (b_close (last (filter (\<lambda>b. b_date b = today) df))) \<ge> 0.05)"
    using check_triggers_flags(3)[OF ne today, of st fetched]
      check_triggers_flags(5)[OF ne today, of st fetched]
    by simp
next
  assume "analyze_month R g monthly_data month_str = (Some ms, g')"
  then show "bt_month_start_price ms = b_open (hd monthly_data)"
    by (rule analyze_month_invariant[where
          P = "\<lambda>s. bt_month_start_price s = b_open (hd monthly_data)", rotated 2])
       (simp_all add: analyze_row_flags(5) initial_month_state_def Let_def)
qed

theorem month_start_price_from_rollover_witness:
  "filter (\<lambda>b. b_date b = example_today) example_frame \<noteq> [] \<and>
   month_start_price
     (cr_state (check_triggers default_state example_frame example_today
        (Inl FetchError :: error + real \<times> unit))) = Some 100 \<and>
   second_dip_triggered
     (cr_state (check_triggers default_state example_frame example_today
        (Inl FetchError :: error + real \<times> unit))) \<and>
   fst (analyze_month example_rng 0 example_frame ''2024-08'') \<noteq> None \<and>
   bt_month_start_price (the (fst (analyze_month example_rng 0 example_frame ''2024-08''))) = 100"
proof -
  let ?r = "check_triggers default_state example_frame example_today
              (Inl FetchError :: error + real \<times> unit)"
  let ?ms = "the (fst (analyze_month example_rng 0 example_frame ''2024-08''))"
  note inst = month_start_price_from_rollover[where st = default_state and df = example_frame
          and today = example_today and fetched = "Inl FetchError :: error + real \<times> unit"
          and R = example_rng and g = 0 and monthly_data = example_frame
          and month_str = "''2024-08''" and ms = ?ms
          and g' = "snd (analyze_month example_rng 0 example_frame ''2024-08'')"]
  have today: "filter (\<lambda>b. b_date b = example_today) example_frame \<noteq> []"
    by (simp add: example_frame_today)
  have price: "month_start_price (cr_state ?r) = Some 100"
    by (simp add: check_triggers_flags(5) example_frame_today example_month example_rollover)
  have "second_dip_triggered (cr_state ?r) =
          (second_dip_triggered (rollover default_state example_frame (strftime_Ym example_today)) \<or>
           cumulative_decline_of (month_start_price (cr_state ?r))
             (b_close (last (filter (\<lambda>b. b_date b = example_today) example_frame))) \<ge> 0.05)"
    using inst today by blast
  then have second: "second_dip_triggered (cr_state ?r)"
    by (simp add: price example_frame_today cumulative_decline_of_def simple_bar_def)
  have "bt_month_start_price ?ms = b_open (hd example_frame)"
    using inst example_month_analysed by blast
  then have bt: "bt_month_start_price ?ms = 100"
    by (simp add: example_frame_def simple_bar_def)
  show ?thesis
    using today price second bt example_month_some by blast
qed

text \<open>
  On 5 August 2024 the evaluated row opens at 99.  From the default state the start price
  becomes 100, the open of the frame's first August row; from a state that already
  belongs to August with no start price, the run is completed and saved with the start
  price still unset.
\<close>

theorem month_start_price_not_open_of_evaluated_row:
  "b_open (last (filter (\<lambda>b. b_date b = example_today) example_frame)) = 99 \<and>
   month_start_price default_state = None \<and>
   month_start_price
     (cr_state (check_triggers default_state example_frame example_today
        (Inl FetchError :: error + real \<times> unit))) = Some 100 \<and>
   month_start_price (default_state\<lparr>current_month := ''2024-08''\<rparr>) = None \<and>
   cr_saved (check_triggers (default_state\<lparr>current_month := ''2024-08''\<rparr>) example_frame
      example_today (Inl FetchError :: error + real \<times> unit)) \<noteq> None \<and>
   month_start_price
     (cr_state (check_triggers (default_state\<lparr>current_month := ''2024-08''\<rparr>) example_frame
        example_today (Inl FetchError :: error + real \<times> unit))) = None"
proof -
  have a: "b_open (last (filter (\<lambda>b. b_date b = example_today) example_frame)) = 99"
    by (simp add: example_frame_today simple_bar_def)
  have b: "month_start_price
     (cr_state (check_triggers default_state example_frame example_today
        (Inl FetchError :: error + real \<times> unit))) = Some 100"
    by (simp add: check_triggers_flags(5) example_frame_today example_month example_rollover)
  have c: "month_start_price
     (cr_state (check_triggers (default_state\<lparr>current_month := ''2024-08''\<rparr>) example_frame
        example_today (Inl FetchError :: error + real \<times> unit))) = None"
    by (simp add: check_triggers_flags(5) example_frame_today example_month
          rollover_same_month default_state_def)
  have d: "cr_saved (check_triggers (default_state\<lparr>current_month := ''2024-08''\<rparr>)
      example_frame example_today (Inl FetchError :: error + real \<times> unit)) \<noteq> None"
    by (simp add: check_triggers_cases example_frame_today Let_def)
  have e: "month_start_price default_state = None"
    by (simp add: default_state_def)
  show ?thesis
    using a b c d e by simp
qed

text \<open>
  C7.  When the fetched frame has no row for today, the run sends no reminder and does
  not reach \<open>save_state\<close>, so the next run loads the state this run loaded.  The month
  rollover comes before the lookup of today's row: the state in memory is the loaded
  state after that rollover, and is the loaded state itself only when the frame is empty
  or the state already belongs to the current month.
\<close>

theorem no_row_for_today:
  fixes fetched :: "error + real \<times> 'g"
  assumes "filter (\<lambda>b. b_date b = today) df = []"
  shows "cr_sent (check_triggers st df today fetched) = [] \<and>
         cr_saved (check_triggers st df today fetched) = None \<and>
         persisted st (check_triggers st df today fetched) = st \<and>
         cr_state (check_triggers st df today fetched) =
           (if df = [] then st else rollover st df (strftime_Ym today)) \<and>
         (df = [] \<or> current_month st = strftime_Ym today \<longrightarrow>
            cr_state (check_triggers st df today fetched) = st)"
  using assms
  by (simp add: check_triggers_cases persisted_def rollover_same_month)

theorem no_row_for_today_witness:
  "filter (\<lambda>b. b_date b = example_today) (take 2 example_frame) = [] \<and>
   cr_sent (check_triggers (default_state\<lparr>current_month := ''2024-08''\<rparr>)
      (take 2 example_frame) example_today (Inl FetchError :: error + real \<times> unit)) = [] \<and>
   cr_saved (check_triggers (default_state\<lparr>current_month := ''2024-08''\<rparr>)
      (take 2 example_frame) example_today (Inl FetchError :: error + real \<times> unit)) = None \<and>
   cr_state (check_triggers (default_state\<lparr>current_month := ''2024-08''\<rparr>)
      (take 2 example_frame) example_today (Inl FetchError :: error + real \<times> unit)) =
     default_state\<lparr>current_month := ''2024-08''\<rparr>"
proof -
  have none: "filter (\<lambda>b. b_date b = example_today) (take 2 example_frame) = []"
    by (simp add: example_frame_def example_today_def simple_bar_def)
  show ?thesis
    using no_row_for_today[OF none, of "default_state\<lparr>current_month := ''2024-08''\<rparr>"
            "Inl FetchError :: error + real \<times> unit"] none
    by (simp add: example_month rollover_same_month)
qed

text \<open>
  A state saved in July with the first reminder sent, loaded on 5 August 2024 when the
  frame ends on 2 August: the run returns at the missing row, after the rollover has
  cleared the flag and changed the month in memory.
\<close>

theorem rollover_precedes_missing_row:
  "filter (\<lambda>b. b_date b = example_today) (take 2 example_frame) = [] \<and>
   first_dip_triggered (default_state\<lparr>current_month := ''2024-07'', first_dip_triggered := True\<rparr>) \<and>
   \<not> first_dip_triggered
       (cr_state (check_triggers
          (default_state\<lparr>current_month := ''2024-07'', first_dip_triggered := True\<rparr>)
          (take 2 example_frame) example_today (Inl FetchError :: error + real \<times> unit))) \<and>
   cr_state (check_triggers
          (default_state\<lparr>current_month := ''2024-07'', first_dip_triggered := True\<rparr>)
          (take 2 example_frame) example_today (Inl FetchError :: error + real \<times> unit)) \<noteq>
     default_state\<lparr>current_month := ''2024-07'', first_dip_triggered := True\<rparr>"
proof -
  let ?st = "default_state\<lparr>current_month := ''2024-07'', first_dip_triggered := True\<rparr>"
  let ?r = "check_triggers ?st (take 2 example_frame) example_today
              (Inl FetchError :: error + real \<times> unit)"
  have none: "filter (\<lambda>b. b_date b = example_today) (take 2 example_frame) = []"
    by (simp add: example_frame_def example_today_def simple_bar_def)
  have ne: "take 2 example_frame \<noteq> []"
    by (simp add: example_frame_def)
  have st: "cr_state ?r = rollover ?st (take 2 example_frame) ''2024-08''"
    using none ne by (simp add: check_triggers_cases example_month)
  have flag: "\<not> first_dip_triggered (cr_state ?r)"
    unfolding st by (simp add: rollover_flags)
  have "first_dip_triggered ?st"
    by simp
  then show ?thesis
    using none flag by auto
qed

text \<open>
  C9.  For every generator, date and volatility (NaN included),
  \<open>simulate_market_breadth\<close> returns a number between 5 and 50, whichever branch is
  taken (the \<open>except\<close> branch returns 25), and the value does not depend on the state
  the generator was in before the call: it is a function of the date and the volatility.
\<close>

theorem simulate_market_breadth_range:
  "(\<exists>r. fst (simulate_market_breadth R g date_val volatility) = Num r \<and> 5 \<le> r \<and> r \<le> 50) \<and>
   fst (simulate_market_breadth R g date_val volatility) =
     fst (simulate_market_breadth R g' date_val volatility)"
proof
  have clamp: "\<exists>r. py_max (Num 5) (py_min (Num 50) x) = Num r \<and> 5 \<le> r \<and> r \<le> 50" for x
    by (cases x) (auto simp: py_max_def py_min_def)
  show "\<exists>r. fst (simulate_market_breadth R g date_val volatility) = Num r \<and> 5 \<le> r \<and> r \<le> 50"
  proof (cases "py_int (strftime_Ymd_compact date_val)")
    case (Inl e)
    then show ?thesis
      by (simp add: simulate_market_breadth_def)
  next
    case (Inr n)
    then show ?thesis
      using clamp by (simp add: simulate_market_breadth_def Let_def case_prod_beta)
  qed
  show "fst (simulate_market_breadth R g date_val volatility) =
     fst (simulate_market_breadth R g' date_val volatility)"
    by (rule simulate_market_breadth_seeded)
qed

theorem simulate_market_breadth_range_witness:
  "fst (simulate_market_breadth example_rng 0 example_today (Num 0.01)) = Num 29 \<and>
   fst (simulate_market_breadth example_rng 7 example_today (Num 0.01)) = Num 29 \<and>
   fst (simulate_market_breadth example_rng 0 example_today (Num 0.5)) = Num 5 \<and>
   fst (simulate_market_breadth example_rng 0 example_today NaN) = Num 50"
  using simulate_market_breadth_range[of example_rng 0 example_today "Num 0.01" 7]
  by (simp add: simulate_market_breadth_def example_seed example_rng_def uniform_def
        py_max_def py_min_def)

text \<open>
  C10.  When the daily return of the evaluated row is NaN, 0 stands in for it, in the
  live monitor and in the backtest.  The run then sets no \<open>first_dip_triggered\<close> flag and
  records no first-dip reminder; stage 1 goes on to the third-Friday test, which alone
  decides whether the deadline flag is set, and the reminders recorded on that row carry
  a daily return of 0.
\<close>

theorem missing_daily_return_is_zero:
  fixes fetched :: "error + real \<times> 'g" and R :: "'h rng"
  assumes "filter (\<lambda>b. b_date b = today) df \<noteq> []"
    and "b_daily_return (last (filter (\<lambda>b. b_date b = today) df)) = NaN"
    and "b_daily_return row = NaN"
  shows "first_dip_triggered (cr_state (check_triggers st df today fetched)) =
           first_dip_triggered (rollover st df (strftime_Ym today)) \<and>
         monthly_deadline_triggered (cr_state (check_triggers st df today fetched)) =
           (monthly_deadline_triggered (rollover st df (strftime_Ym today)) \<or>
            (\<not> first_dip_triggered (rollover st df (strftime_Ym today)) \<and>
             is_third_friday today)) \<and>
         (\<forall>m \<in> set (cr_sent (check_triggers st df today fetched)).
            message_type m \<noteq> FirstDip \<and>
            (message_type m = MonthlyDeadline \<longrightarrow>
               m = DeadlineMsg (b_close (last (filter (\<lambda>b. b_date b = today) df))) 0 today)) \<and>
         bt_first_dip_triggered (fst (analyze_row R monthly_data (i, row) (ms, g))) =
           bt_first_dip_triggered ms \<and>
         bt_monthly_deadline_triggered (fst (analyze_row R monthly_data (i, row) (ms, g))) =
           (bt_monthly_deadline_triggered ms \<or>
            (\<not> bt_first_dip_triggered ms \<and> backtest_is_third_friday (b_date row))) \<and>
         (\<exists>new. bt_triggers (fst (analyze_row R monthly_data (i, row) (ms, g))) =
                  bt_triggers ms @ new \<and>
                (\<forall>t \<in> set new. t_type t \<noteq> FirstDip \<and> t_daily_return t = 0))"
proof -
  let ?r = "check_triggers st df today fetched"
  let ?st1 = "rollover st df (strftime_Ym today)"
  have df: "df \<noteq> []"
    using assms(1) by auto
  have ret: "(case b_daily_return (last (filter (\<lambda>b. b_date b = today) df)) of
                NaN \<Rightarrow> 0 | Num r \<Rightarrow> r) = (0::real)"
    by (simp add: assms(2))
  have first: "first_dip_triggered (cr_state ?r) = first_dip_triggered ?st1"
    using check_triggers_flags(1)[OF df assms(1), of st fetched] by (simp add: ret)
  have deadline: "monthly_deadline_triggered (cr_state ?r) =
           (monthly_deadline_triggered ?st1 \<or> (\<not> first_dip_triggered ?st1 \<and> is_third_friday today))"
    using check_triggers_flags(2)[OF df assms(1), of st fetched] by (simp add: ret)
  have sent: "\<forall>m \<in> set (cr_sent ?r).
            message_type m \<noteq> FirstDip \<and>
            (message_type m = MonthlyDeadline \<longrightarrow>
               m = DeadlineMsg (b_close (last (filter (\<lambda>b. b_date b = today) df))) 0 today)"
    using df assms(1)
    by (auto simp: check_triggers_cases Let_def ret stage3_messages stage2_messages
          stage1_messages split: if_splits)
  have row: "(case b_daily_return row of NaN \<Rightarrow> 0 | Num r \<Rightarrow> r) = (0::real)"
    by (simp add: assms(3))
  have bt_first: "bt_first_dip_triggered (fst (analyze_row R monthly_data (i, row) (ms, g))) =
           bt_first_dip_triggered ms"
    by (simp add: analyze_row_flags(1) row)
  have bt_deadline:
    "bt_monthly_deadline_triggered (fst (analyze_row R monthly_data (i, row) (ms, g))) =
           (bt_monthly_deadline_triggered ms \<or>
            (\<not> bt_first_dip_triggered ms \<and> backtest_is_third_friday (b_date row)))"
    by (simp add: analyze_row_flags(2) row)
  have bt_new: "\<exists>new. bt_triggers (fst (analyze_row R monthly_data (i, row) (ms, g))) =
                  bt_triggers ms @ new \<and>
                (\<forall>t \<in> set new. t_type t \<noteq> FirstDip \<and> t_daily_return t = 0)"
    by (auto simp: analyze_row_fst row bt_stage3_triggers bt_stage2_triggers bt_stage1_triggers)
  show ?thesis
    using first deadline sent bt_first bt_deadline bt_new by blast
qed

theorem missing_daily_return_is_zero_witness:
  "b_daily_return (last (filter (\<lambda>b. b_date b = \<lparr>year = 2024, month = 8, day = 1\<rparr>)
      example_frame)) = NaN \<and>
   b_daily_return (hd example_frame) = NaN \<and>
   \<not> first_dip_triggered
       (cr_state (check_triggers default_state example_frame \<lparr>year = 2024, month = 8, day = 1\<rparr>
          (Inl FetchError :: error + real \<times> unit))) \<and>
   \<not> bt_first_dip_triggered
       (fst (analyze_row example_rng example_frame (0, hd example_frame)
          (initial_month_state example_frame ''2024-08'', 0)))"
  using missing_daily_return_is_zero[where df = example_frame
          and today = "\<lparr>year = 2024, month = 8, day = 1\<rparr>" and row = "hd example_frame"
          and st = default_state and fetched = "Inl FetchError :: error + real \<times> unit"
          and R = example_rng and monthly_data = example_frame and i = 0
          and ms = "initial_month_state example_frame ''2024-08''" and g = 0]
  by (simp add: example_frame_def example_today_def simple_bar_def rollover_flags
        default_state_def initial_month_state_def)

end
